theory Spec2Isabelle
  imports Main "HOL-Library.Word" "HOL-Library.Signed_Division" "HOL-Library.Sublist"
begin

section \<open>Common vocabulary\<close>

text \<open>
  Go's \<^verbatim>\<open>uint64\<close> is \<open>64 word\<close>: \<open>+\<close> and \<open>-\<close> wrap around, \<open>\<le>\<close> and
  \<open>mod\<close> are the unsigned ones. An \<^verbatim>\<open>int64\<close> is the same 64 bits read through
  \<open>sint\<close>. A Go function that can stop with a run-time panic (integer division by
  zero, index out of range), return an error, or return a value has the three
  outcomes below.
\<close>

type_synonym u64 = "64 word"

datatype ('e, 'a) outcome = Panicked | Failed 'e | Returned 'a

text \<open>\<^verbatim>\<open>fmt.Sprintf("%d", n)\<close> for an unsigned number: its decimal digits.\<close>

definition digit_char :: "nat \<Rightarrow> char" where
  "digit_char d = ''0123456789'' ! d"

function show_nat :: "nat \<Rightarrow> string" where
  "show_nat n = (if n < 10 then [digit_char n] else show_nat (n div 10) @ [digit_char (n mod 10)])"
  by pat_completeness auto
termination
  by (relation "measure (\<lambda>n. n)") auto

declare show_nat.simps [simp del]


section \<open>Shard index (package indexer-bigquery, shard index file)\<close>

text \<open>
  \<^verbatim>\<open>BigQueryShardIndex\<close>: the two block numbers are the potential range of the
  shard; \<open>docs\<close> stands for the records appended to the build-time file by
  \<^verbatim>\<open>Index\<close>. The remaining fields (ids, times, paths, file handles, lock) play no
  part in the range.
\<close>

record 'd BigQueryShardIndex =
  StartBlock :: u64
  EndBlock :: u64
  docs :: "'d list"

text \<open>
  \<^verbatim>\<open>newShardIndex\<close>: the struct literal computes \<^verbatim>\<open>baseBlockNum + shardSize - 1\<close>
  in \<^verbatim>\<open>uint64\<close>; the only special case is \<^verbatim>\<open>baseBlockNum == 0 && shardSize == 0\<close>.
  It never returns an error.
\<close>

definition newShardIndex :: "u64 \<Rightarrow> u64 \<Rightarrow> 'd BigQueryShardIndex" where
  "newShardIndex baseBlockNum shardSize =
     (let shard = \<lparr> StartBlock = baseBlockNum,
                    EndBlock = baseBlockNum + shardSize - 1,
                    docs = [] \<rparr>
      in if baseBlockNum = 0 \<and> shardSize = 0 then shard \<lparr> EndBlock := 0 \<rparr> else shard)"

definition containsBlockNum :: "'d BigQueryShardIndex \<Rightarrow> u64 \<Rightarrow> bool" where
  "containsBlockNum s blockNum \<longleftrightarrow> blockNum \<ge> StartBlock s \<and> blockNum \<le> EndBlock s"

text \<open>\<^verbatim>\<open>Index(doc)\<close> appends one record to the build-time file and touches nothing else.\<close>

definition Index :: "'d BigQueryShardIndex \<Rightarrow> 'd \<Rightarrow> 'd BigQueryShardIndex" where
  "Index s doc = s \<lparr> docs := docs s @ [doc] \<rparr>"


section \<open>Indexer bootstrap (package indexer)\<close>

text \<open>
  The part of \<^verbatim>\<open>Indexer\<close> that \<^verbatim>\<open>Bootstrap\<close> reads and writes. The pipeline is a
  collaborator outside these files: its \<^verbatim>\<open>Bootstrap\<close> is the parameter
  \<open>pipelineBootstrap\<close>, returning its error or \<open>None\<close> for \<^verbatim>\<open>nil\<close>.
\<close>

record Indexer =
  StartBlockNum :: u64
  shardSize :: u64

datatype 'e bootstrap_error =
    IndexerError string    \<comment> \<open>the \<^verbatim>\<open>fmt.Errorf\<close> of \<^verbatim>\<open>Indexer.Bootstrap\<close> itself\<close>
  | PipelineError 'e       \<comment> \<open>whatever \<^verbatim>\<open>pipeline.Bootstrap\<close> returned\<close>

definition boundary_message :: string where
  "boundary_message =
     ''indexer only starts RIGHT BEFORE the index boundaries, did you specify an irreversible block_id with a round number? It says ''"

text \<open>
  \<^verbatim>\<open>i.StartBlockNum % i.shardSize\<close> panics when the shard size is 0; the field is
  assigned before the test, so the indexer is returned updated in every case.
\<close>

definition Bootstrap ::
  "(u64 \<Rightarrow> 'e option) \<Rightarrow> Indexer \<Rightarrow> u64 \<Rightarrow> ('e bootstrap_error, unit) outcome \<times> Indexer" where
  "Bootstrap pipelineBootstrap i startBlockNum =
     (let i' = i \<lparr> StartBlockNum := startBlockNum \<rparr> in
      if shardSize i' = 0 then (Panicked, i')
      else if StartBlockNum i' mod shardSize i' \<noteq> 0 \<and> StartBlockNum i' \<noteq> 1
        then (Failed (IndexerError (boundary_message @ show_nat (unat (StartBlockNum i')))), i')
      else (case pipelineBootstrap (StartBlockNum i') of
              Some e \<Rightarrow> (Failed (PipelineError e), i')
            | None \<Rightarrow> (Returned (), i')))"


section \<open>Start-block resolution of the archive application\<close>

text \<open>
  \<^verbatim>\<open>%\<close> on \<^verbatim>\<open>int64\<close> is the truncated remainder: its sign follows the dividend
  (\<open>smod\<close> on \<open>int\<close>), and the result is again 64 bits.
\<close>

definition rem_i64 :: "u64 \<Rightarrow> u64 \<Rightarrow> u64" where
  "rem_i64 a b = word_of_int (sint a smod sint b)"

text \<open>\<^verbatim>\<open>%d\<close> of a signed number.\<close>

definition show_int :: "int \<Rightarrow> string" where
  "show_int k = (if k < 0 then CHR ''-'' # show_nat (nat (- k)) else show_nat (nat k))"

text \<open>
  \<^verbatim>\<open>resolveStartBlock(startBlock int64, shardSize, irrBlockNum uint64)\<close>. The first
  argument is the \<^verbatim>\<open>int64\<close> given by its 64 bits; \<^verbatim>\<open>int64(shardSize)\<close>,
  \<^verbatim>\<open>int64(irrBlockNum)\<close> and \<^verbatim>\<open>uint64(...)\<close> keep the bits, the signed tests read
  them through \<open>sint\<close>. Both remainders panic on a zero shard size. The errors are
  \<^verbatim>\<open>fmt.Errorf\<close> messages.
\<close>

definition resolveStartBlock :: "u64 \<Rightarrow> u64 \<Rightarrow> u64 \<Rightarrow> (string, u64) outcome" where
  "resolveStartBlock startBlock shardSz irrBlockNum =
     (if 0 \<le>s startBlock then
        (if shardSz = 0 then Panicked
         else if rem_i64 startBlock shardSz \<noteq> 0
           then Failed (''start block '' @ show_int (sint startBlock)
                        @ '' misaligned with shard size '' @ show_nat (unat shardSz))
         else Returned startBlock)
      else
        (let absoluteStartBlock = irrBlockNum + startBlock in
         if shardSz = 0 then Panicked
         else
           (let absoluteStartBlock = absoluteStartBlock - rem_i64 absoluteStartBlock shardSz in
            if absoluteStartBlock <s 0
              then Failed (''relative start block '' @ show_int (sint startBlock)
                           @ ''  is to large, cannot resolve to a negative start block ''
                           @ show_int (sint absoluteStartBlock))
            else Returned absoluteStartBlock)))"


section \<open>Next base block of the BigQuery indexer\<close>

text \<open>
  The remote listing is scanned with the regular expression
  \<^verbatim>\<open>(\d{10})\.avro\<close>, which is not anchored: \<^verbatim>\<open>FindStringSubmatch\<close> returns the
  leftmost place of the name where ten ASCII digits are followed by \<^verbatim>\<open>.avro\<close>, and
  its first group is those ten digits. \<open>None\<close> is Go's \<^verbatim>\<open>nil\<close> (no match).
\<close>

definition is_digit :: "char \<Rightarrow> bool" where
  "is_digit c \<longleftrightarrow> c \<in> set ''0123456789''"

definition matches_here :: "string \<Rightarrow> bool" where
  "matches_here s \<longleftrightarrow>
     length s \<ge> 15 \<and> list_all is_digit (take 10 s) \<and> take 5 (drop 10 s) = ''.avro''"

fun FindStringSubmatch :: "string \<Rightarrow> string option" where
  "FindStringSubmatch [] = None"
| "FindStringSubmatch (c # cs) =
     (if matches_here (c # cs) then Some (take 10 (c # cs)) else FindStringSubmatch cs)"

text \<open>
  Modelled from the spec: \<^verbatim>\<open>startBlockFromFileName\<close> is defined in a file of the
  package that is not among the sources. The spec names a shard by its base, zero-padded
  to ten decimal digits, so the function is taken to read the digits back as a decimal
  number.
\<close>

definition digit_val :: "char \<Rightarrow> nat" where
  "digit_val c = of_char c - 48"

definition startBlockFromFileName :: "string \<Rightarrow> u64" where
  "startBlockFromFileName ds = of_nat (foldl (\<lambda>n c. 10 * n + digit_val c) 0 ds)"

text \<open>
  The \<^verbatim>\<open>for ... range remote\<close> loop of \<^verbatim>\<open>NextBaseBlockAfter\<close>, with
  \<open>next\<close> for the variable \<^verbatim>\<open>nextStartBlockNum\<close>: a name without a match and a
  file that starts at or before \<^verbatim>\<open>startBlockNum\<close> are skipped (\<^verbatim>\<open>continue\<close>), a
  file that starts beyond \<^verbatim>\<open>nextStartBlockNum + shardSize\<close> ends the loop
  (\<^verbatim>\<open>break\<close>). The counter of skipped files only feeds the log.
\<close>

fun scan_remote :: "u64 \<Rightarrow> u64 \<Rightarrow> u64 \<Rightarrow> string list \<Rightarrow> u64" where
  "scan_remote startBlockNum shardSz next [] = next"
| "scan_remote startBlockNum shardSz next (file # files) =
     (case FindStringSubmatch file of
        None \<Rightarrow> scan_remote startBlockNum shardSz next files
      | Some m \<Rightarrow>
          (let fileStartBlock = startBlockFromFileName m in
           if fileStartBlock \<le> startBlockNum then scan_remote startBlockNum shardSz next files
           else if fileStartBlock > next + shardSz then next
           else scan_remote startBlockNum shardSz fileStartBlock files))"

text \<open>\<^verbatim>\<open>alignStartBlock\<close>; \<open>None\<close> is the panic of \<^verbatim>\<open>%\<close> on a zero shard size.\<close>

definition alignStartBlock :: "u64 \<Rightarrow> u64 \<Rightarrow> u64 option" where
  "alignStartBlock shardSz startBlock =
     (if shardSz = 0 then None else Some (startBlock - (startBlock mod shardSz)))"

text \<open>
  \<^verbatim>\<open>NextBaseBlockAfter\<close>. \<open>remote\<close> is what \<^verbatim>\<open>ListFiles\<close> returned for the shard
  prefix (names ending in \<^verbatim>\<open>.tmp\<close> already left out by the store), or \<open>None\<close> when
  it returned an error: then the function returns \<^verbatim>\<open>startBlockNum\<close> as it is.
\<close>

definition NextBaseBlockAfter :: "u64 \<Rightarrow> string list option \<Rightarrow> u64 \<Rightarrow> u64 option" where
  "NextBaseBlockAfter shardSz remote startBlockNum =
     (case remote of
        None \<Rightarrow> Some startBlockNum
      | Some files \<Rightarrow> alignStartBlock shardSz (scan_remote startBlockNum shardSz startBlockNum files))"

text \<open>
  The same function the way the specification words it: the bases of the matching names
  that lie after \<open>base\<close> are the candidates; the chain is followed while each candidate
  is at most one shard size beyond the previous one and stops at the first gap; the
  result is aligned.
\<close>

definition candidates :: "u64 \<Rightarrow> string list \<Rightarrow> u64 list" where
  "candidates base files =
     filter (\<lambda>b. b > base) (map startBlockFromFileName (List.map_filter FindStringSubmatch files))"

fun follow_chain :: "u64 \<Rightarrow> u64 \<Rightarrow> u64 list \<Rightarrow> u64" where
  "follow_chain shardSz previous [] = previous"
| "follow_chain shardSz previous (b # bs) =
     (if b \<le> previous + shardSz then follow_chain shardSz b bs else previous)"

definition spec_nextBaseAfter :: "u64 \<Rightarrow> string list \<Rightarrow> u64 \<Rightarrow> u64" where
  "spec_nextBaseAfter shardSz files base =
     (let b = follow_chain shardSz base (candidates base files) in b - (b mod shardSz))"

definition remote_example :: "string list" where
  "remote_example = [''0000000000.avro'', ''0000005000.avro'', ''0000015000.avro'']"


section \<open>Errors of the gRPC services\<close>

text \<open>
  Go \<^verbatim>\<open>error\<close> values as they occur in the two services: a gRPC status with a code
  (\<^verbatim>\<open>derr.Status\<close>, \<^verbatim>\<open>derr.Statusf\<close>), a plain \<^verbatim>\<open>fmt.Errorf\<close> message, a
  \<^verbatim>\<open>fmt.Errorf\<close> that formats another error into its message, the two sentinel values
  \<^verbatim>\<open>context.Canceled\<close> and \<^verbatim>\<open>search.ErrEndOfRange\<close>, and errors produced by the
  collaborators (query parser, pre-indexer, query engine, stream).
\<close>

datatype grpc_code = InvalidArgument | NotFound | Canceled

datatype error =
    Status grpc_code string
  | Errorf string
  | ErrorfWith string error
  | ContextCanceled
  | ErrEndOfRange
  | Collaborator string


section \<open>Fork resolver (package forkresolver)\<close>

record BlockRef =
  BlockID :: string
  BlockNum :: u64

text \<open>\<^verbatim>\<open>bstream.Block\<close>: \<open>ID\<close> and \<open>Num\<close> are what \<^verbatim>\<open>blk.ID()\<close> and \<^verbatim>\<open>blk.Num()\<close>
  return (the fields \<^verbatim>\<open>Id\<close> and \<^verbatim>\<open>Number\<close>).\<close>

record Block =
  ID :: string
  Num :: u64

record ForkResolveRequest =
  Query :: string
  ForkedBlockRefs :: "BlockRef list"

text \<open>\<^verbatim>\<open>search.SearchMatch\<close>, the interface of a match of the query engine.\<close>

record search_match =
  TransactionIDPrefix :: string
  GetIndex :: u64

text \<open>
  Modelled from the spec: \<^verbatim>\<open>search.NewCursor\<close> is not among the sources. The spec
  gives the cursor as the token \<open>(block_num, block_id, trx_id_prefix)\<close>; its encoding
  is left out.
\<close>

record cursor =
  cursor_block_num :: u64
  cursor_block_id :: string
  cursor_trx_id_prefix :: string

definition NewCursor :: "u64 \<Rightarrow> string \<Rightarrow> string \<Rightarrow> cursor" where
  "NewCursor blockNum blockID trxPrefix =
     \<lparr> cursor_block_num = blockNum, cursor_block_id = blockID, cursor_trx_id_prefix = trxPrefix \<rparr>"

text \<open>\<^verbatim>\<open>pbsearch.SearchMatch\<close>, the message sent on the stream.\<close>

record SearchMatch =
  TrxIdPrefix :: string
  MatchIndex :: u64
  Cursor :: cursor
  IrrBlockNum :: u64
  MatchBlockNum :: u64
  Undo :: bool

text \<open>
  What the service is given from outside: the query parser, the block files as the file
  source hands them to its handler when started at a block number, the pre-indexer, the
  query engine (called with \<^verbatim>\<open>sortDesc = false\<close> over the whole range), the
  protocol-specific filling of a match (it adds the protocol's part of the message,
  which is left out here, or fails), and the stream. \<open>ctx_done\<close> says that the
  context is cancelled while the blocks are fetched; \<open>ctx_err k\<close> and
  \<open>stream_send k\<close> are \<^verbatim>\<open>ctx.Err() != nil\<close> and the result of \<^verbatim>\<open>stream.Send\<close> once
  \<open>k\<close> matches have been sent.
\<close>

record ('q, 'i) fr_env =
  NewParsedQuery :: "string \<Rightarrow> error + 'q"
  ctx_done :: bool
  file_source :: "u64 \<Rightarrow> Block list"
  createSingleIndex :: "Block \<Rightarrow> error + 'i"
  RunSingleIndexQuery :: "'q \<Rightarrow> 'i \<Rightarrow> error + search_match list"
  FillProtoSpecific :: "search_match \<Rightarrow> Block \<Rightarrow> error option"
  ctx_err :: "nat \<Rightarrow> bool"
  stream_send :: "nat \<Rightarrow> error option"

definition MaxLookupBlocks :: u64 where
  "MaxLookupBlocks = 10000"

text \<open>\<^verbatim>\<open>boundaries\<close>: \<^verbatim>\<open>refs[0]\<close> panics on an empty slice (\<open>None\<close>).\<close>

definition boundaries_step :: "BlockRef \<Rightarrow> u64 \<times> u64 \<Rightarrow> u64 \<times> u64" where
  "boundaries_step ref lh =
     (let lowest = (if BlockNum ref < fst lh then BlockNum ref else fst lh);
          highest = (if BlockNum ref > snd lh then BlockNum ref else snd lh)
      in (lowest, highest))"

definition boundaries :: "BlockRef list \<Rightarrow> (u64 \<times> u64) option" where
  "boundaries refs =
     (case refs of
        [] \<Rightarrow> None
      | r # _ \<Rightarrow> Some (fold boundaries_step refs (BlockNum r, BlockNum r)))"

text \<open>\<^verbatim>\<open>toMap\<close>: every value of the map is \<^verbatim>\<open>true\<close>, so the map is its set of keys.\<close>

definition toMap :: "BlockRef list \<Rightarrow> string set" where
  "toMap refs = set (map BlockID refs)"

text \<open>\<^verbatim>\<open>sort.SliceStable\<close> with \<^verbatim>\<open>blocks[i].Number > blocks[j].Number\<close>: a stable
  sort into descending block numbers.\<close>

fun insert_descending :: "Block \<Rightarrow> Block list \<Rightarrow> Block list" where
  "insert_descending b [] = [b]"
| "insert_descending b (c # cs) =
     (if Num c > Num b then c # insert_descending b cs else b # c # cs)"

definition sortDescending :: "Block list \<Rightarrow> Block list" where
  "sortDescending blocks = foldr insert_descending blocks []"

text \<open>
  The handler of \<^verbatim>\<open>getBlocksDescending\<close> run over the blocks of the file source. The
  result is \<^verbatim>\<open>out\<close>, \<^verbatim>\<open>complete\<close> and the error the source terminated with: the
  handler's own error, or the one of the not-found callback when the block files end.
\<close>

fun handle_blocks :: "u64 \<Rightarrow> Block list \<Rightarrow> string set \<Rightarrow> Block list \<Rightarrow> Block list \<times> bool \<times> error" where
  "handle_blocks highest [] refsMap out =
     (out, False, Errorf ''cannot run forkresolver on missing block files'')"
| "handle_blocks highest (blk # blks) refsMap out =
     (if Num blk > highest + MaxLookupBlocks
        then (out, False,
              Status NotFound (''not found within '' @ show_nat (unat MaxLookupBlocks) @ '' blocks''))
      else
        (let out' = (if ID blk \<in> refsMap then out @ [blk] else out);
             refsMap' = (if ID blk \<in> refsMap then refsMap - {ID blk} else refsMap)
         in if refsMap' = {} then (out', True, ErrEndOfRange)
            else handle_blocks highest blks refsMap' out'))"

definition getBlocksDescending ::
  "('q, 'i) fr_env \<Rightarrow> BlockRef list \<Rightarrow> (error, Block list \<times> u64) outcome" where
  "getBlocksDescending env refs =
     (case boundaries refs of
        None \<Rightarrow> Panicked
      | Some (lowest, highest) \<Rightarrow>
          (let libnum = lowest - 1;
               refsMap = toMap refs
           in if ctx_done env then Failed ContextCanceled
              else (case handle_blocks highest (file_source env lowest) refsMap [] of
                      (out, complete, err) \<Rightarrow>
                        if \<not> complete then Failed err
                        else Returned (sortDescending out, libnum))))"

definition undo_match :: "Block \<Rightarrow> u64 \<Rightarrow> search_match \<Rightarrow> SearchMatch" where
  "undo_match blk libnum match =
     \<lparr> TrxIdPrefix = TransactionIDPrefix match,
       MatchIndex = GetIndex match,
       Cursor = NewCursor (Num blk) (ID blk) (TransactionIDPrefix match),
       IrrBlockNum = libnum,
       MatchBlockNum = Num blk,
       Undo = True \<rparr>"

text \<open>
  The inner loop over the matches of one block, given in the order the loop visits
  them (\<^verbatim>\<open>i\<close> from \<^verbatim>\<open>len(matches) - 1\<close> down to 0). \<open>k\<close> counts the matches sent
  before. The first component is \<open>None\<close> when the loop ran to its end and \<open>Some r\<close>
  when it returned \<open>r\<close> from the service (\<open>None\<close> being \<^verbatim>\<open>nil\<close>).
\<close>

fun send_matches ::
  "('q, 'i) fr_env \<Rightarrow> Block \<Rightarrow> u64 \<Rightarrow> search_match list \<Rightarrow> nat
     \<Rightarrow> error option option \<times> SearchMatch list" where
  "send_matches env blk libnum [] k = (None, [])"
| "send_matches env blk libnum (match # rest) k =
     (let pbMatch = undo_match blk libnum match in
      case FillProtoSpecific env match blk of
        Some err \<Rightarrow> (Some (Some err), [])
      | None \<Rightarrow>
          if ctx_err env k then (Some None, [])
          else (case stream_send env k of
                  Some err \<Rightarrow> (Some (Some err), [])
                | None \<Rightarrow>
                    (case send_matches env blk libnum rest (Suc k) of
                       (r, sent) \<Rightarrow> (r, pbMatch # sent))))"

text \<open>The outer loop over the blocks.\<close>

fun process_blocks ::
  "('q, 'i) fr_env \<Rightarrow> 'q \<Rightarrow> u64 \<Rightarrow> Block list \<Rightarrow> nat \<Rightarrow> error option \<times> SearchMatch list" where
  "process_blocks env bquery libnum [] k = (None, [])"
| "process_blocks env bquery libnum (blk # blks) k =
     (case createSingleIndex env blk of
        Inl err \<Rightarrow> (Some err, [])
      | Inr idx \<Rightarrow>
          (case RunSingleIndexQuery env bquery idx of
             Inl err \<Rightarrow>
               (if err = ContextCanceled then (Some (Status Canceled ''context canceled''), [])
                else (Some (Errorf ''failed running single-index query''), []))
           | Inr matches \<Rightarrow>
               (case send_matches env blk libnum (rev matches) k of
                  (Some r, sent) \<Rightarrow> (r, sent)
                | (None, sent) \<Rightarrow>
                    (case process_blocks env bquery libnum blks (k + length sent) of
                       (r, sent') \<Rightarrow> (r, sent @ sent')))))"

text \<open>
  What \<^verbatim>\<open>StreamUndoMatches\<close> does besides returning: it parses the query, calls
  \<^verbatim>\<open>getBlocksDescending\<close> and sends matches.
\<close>

datatype fr_effect =
    ParsedQuery string
  | FetchedBlocks "BlockRef list"
  | Sent SearchMatch

text \<open>
  \<^verbatim>\<open>StreamUndoMatches\<close>. The third result of \<^verbatim>\<open>getBlocksDescending\<close> is assigned to
  \<^verbatim>\<open>err\<close> and not looked at again: when it is an error, \<^verbatim>\<open>blocks\<close> is \<^verbatim>\<open>nil\<close> and
  \<^verbatim>\<open>libnum\<close> is 0, the loop over the blocks is empty and the service returns
  \<^verbatim>\<open>nil\<close>.
\<close>

definition StreamUndoMatches ::
  "('q, 'i) fr_env \<Rightarrow> ForkResolveRequest \<Rightarrow> (error, unit) outcome \<times> fr_effect list" where
  "StreamUndoMatches env req =
     (if length (ForkedBlockRefs req) = 0
        then (Failed (Status InvalidArgument ''invalid argument: no refs requested''), [])
      else
        (case NewParsedQuery env (Query req) of
           Inl err \<Rightarrow>
             (if err = ContextCanceled
                then (Failed (Status Canceled ''context canceled''), [ParsedQuery (Query req)])
              else (Failed err, [ParsedQuery (Query req)]))
         | Inr bquery \<Rightarrow>
             (case getBlocksDescending env (ForkedBlockRefs req) of
                Panicked \<Rightarrow>
                  (Panicked, [ParsedQuery (Query req), FetchedBlocks (ForkedBlockRefs req)])
              | fetched \<Rightarrow>
                  (let (blocks, libnum) =
                         (case fetched of Returned bl \<Rightarrow> bl | _ \<Rightarrow> ([], 0))
                   in case process_blocks env bquery libnum blocks 0 of
                        (r, sent) \<Rightarrow>
                          ((case r of None \<Rightarrow> Returned () | Some err \<Rightarrow> Failed err),
                           [ParsedQuery (Query req), FetchedBlocks (ForkedBlockRefs req)]
                             @ map Sent sent)))))"


text \<open>
  All the messages the two loops of \<^verbatim>\<open>StreamUndoMatches\<close> build for one block when
  nothing stops them: the matches of the query on the block's index, last one first.
\<close>

definition block_matches :: "('q, 'i) fr_env \<Rightarrow> 'q \<Rightarrow> u64 \<Rightarrow> Block \<Rightarrow> SearchMatch list" where
  "block_matches env bquery libnum blk =
     (case createSingleIndex env blk of
        Inl err \<Rightarrow> []
      | Inr idx \<Rightarrow>
          (case RunSingleIndexQuery env bquery idx of
             Inl err \<Rightarrow> []
           | Inr matches \<Rightarrow> map (undo_match blk libnum) (rev matches)))"

text \<open>The matches a run of the service has sent, read off its effects.\<close>

fun sent_matches :: "fr_effect list \<Rightarrow> SearchMatch list" where
  "sent_matches [] = []"
| "sent_matches (Sent m # es) = m # sent_matches es"
| "sent_matches (e # es) = sent_matches es"

subsection \<open>A request for three forked blocks that are in the store\<close>

definition forked_refs :: "BlockRef list" where
  "forked_refs =
     [\<lparr> BlockID = ''aa'', BlockNum = 7 \<rparr>,
      \<lparr> BlockID = ''bb'', BlockNum = 9 \<rparr>,
      \<lparr> BlockID = ''cc'', BlockNum = 9 \<rparr>]"

definition forked_request :: ForkResolveRequest where
  "forked_request = \<lparr> Query = ''account:eosio.token'', ForkedBlockRefs = forked_refs \<rparr>"

definition forked_env :: "(string, Block) fr_env" where
  "forked_env =
     \<lparr> NewParsedQuery = (\<lambda>q. Inr q),
       ctx_done = False,
       file_source = (\<lambda>lowest.
          [\<lparr> ID = ''aa'', Num = 7 \<rparr>, \<lparr> ID = ''zz'', Num = 8 \<rparr>,
           \<lparr> ID = ''bb'', Num = 9 \<rparr>, \<lparr> ID = ''cc'', Num = 9 \<rparr>]),
       createSingleIndex = (\<lambda>blk. Inr blk),
       RunSingleIndexQuery = (\<lambda>q idx.
          Inr [\<lparr> TransactionIDPrefix = ''t0'', GetIndex = 0 \<rparr>,
               \<lparr> TransactionIDPrefix = ''t1'', GetIndex = 1 \<rparr>]),
       FillProtoSpecific = (\<lambda>_ _. None),
       ctx_err = (\<lambda>_. False),
       stream_send = (\<lambda>_. None) \<rparr>"

subsection \<open>A request for a block that is not in the store\<close>

text \<open>
  One forked block reference, number 500 and id \<open>dead\<close>; a block store that holds the
  blocks 500 to 10501, none of them with that id; a query parser that accepts.
\<close>

definition example_refs :: "BlockRef list" where
  "example_refs = [\<lparr> BlockID = ''dead'', BlockNum = 500 \<rparr>]"

definition example_block :: "nat \<Rightarrow> Block" where
  "example_block n = \<lparr> ID = CHR ''b'' # show_nat n, Num = of_nat n \<rparr>"

definition example_env :: "(string, unit) fr_env" where
  "example_env =
     \<lparr> NewParsedQuery = (\<lambda>q. Inr q),
       ctx_done = False,
       file_source = (\<lambda>lowest. map example_block [unat lowest ..< unat lowest + 10002]),
       createSingleIndex = (\<lambda>_. Inr ()),
       RunSingleIndexQuery = (\<lambda>_ _. Inr []),
       FillProtoSpecific = (\<lambda>_ _. None),
       ctx_err = (\<lambda>_. False),
       stream_send = (\<lambda>_. None) \<rparr>"

definition example_request :: ForkResolveRequest where
  "example_request = \<lparr> Query = ''account:eosio.token'', ForkedBlockRefs = example_refs \<rparr>"


section \<open>Archive backend (package archive)\<close>

text \<open>\<^verbatim>\<open>pbsearch.BackendRequest\<close>; \<open>BackendQuery\<close> is its field \<^verbatim>\<open>Query\<close>.\<close>

record BackendRequest =
  BackendQuery :: string
  LowBlockNum :: u64
  HighBlockNum :: u64
  Descending :: bool
  WithReversible :: bool
  StopAtVirtualHead :: bool
  LiveMarkerInterval :: u64
  NavigateFromBlockID :: string
  NavigateFromBlockNum :: u64

text \<open>\<^verbatim>\<open>metadata.MD\<close>: a map from keys to lists of values; \<^verbatim>\<open>Set\<close> replaces a key.\<close>

type_synonym metadata = "string \<rightharpoonup> string list"

definition md_set :: "string \<Rightarrow> string \<Rightarrow> metadata \<Rightarrow> metadata" where
  "md_set k v md = md(k \<mapsto> [v])"

text \<open>
  After \<^verbatim>\<open>go archiveQuery.run()\<close> the handler waits in a \<^verbatim>\<open>select\<close> on the two
  channels of the query. One thing received there is an error or \<^verbatim>\<open>nil\<close> from
  \<^verbatim>\<open>Errors\<close> (together with whether \<^verbatim>\<open>ctx.Err()\<close> is \<^verbatim>\<open>context.Canceled\<close> at
  that moment), a match from \<^verbatim>\<open>Results\<close>, or the closing of \<^verbatim>\<open>Results\<close>
  (together with the value \<^verbatim>\<open>LastBlockRead\<close> holds then).
\<close>

datatype 'm received =
    FromErrors "error option" bool
  | FromResults 'm
  | ResultsClosed u64

text \<open>
  What the handler is given from outside: the query parser, the boundary check of the
  archive query against the pointers of the search peer, the sequence of things the
  \<^verbatim>\<open>select\<close> receives, the conversion of a match to its message, and the result of
  \<^verbatim>\<open>stream.Send\<close> once \<open>k\<close> messages have been sent. The archive query and the
  metrics are not among the sources.
\<close>

record ('q, 'm, 'r) archive_env =
  archive_NewParsedQuery :: "string \<Rightarrow> error + 'q"
  checkBoundaries :: "BackendRequest \<Rightarrow> error option"
  select_receives :: "'m received list"
  archiveSearchMatchToProto :: "'m \<Rightarrow> error + 'r"
  archive_send :: "nat \<Rightarrow> error option"

text \<open>
  The \<^verbatim>\<open>for { select { ... } }\<close> loop. The result is \<open>None\<close> when nothing more
  arrives on either channel, so that the handler never returns, and \<open>Some r\<close> when it
  returns \<open>r\<close>; with it the messages sent and the trailer as it stands at that moment.
\<close>

fun select_loop ::
  "('q, 'm, 'r) archive_env \<Rightarrow> 'm received list \<Rightarrow> nat \<Rightarrow> metadata
     \<Rightarrow> error option option \<times> 'r list \<times> metadata" where
  "select_loop env [] k trailer = (None, [], trailer)"
| "select_loop env (FromErrors (Some err) canceled # rest) k trailer =
     (if canceled then (Some None, [], trailer) else (Some (Some err), [], trailer))"
| "select_loop env (FromErrors None canceled # rest) k trailer = (Some None, [], trailer)"
| "select_loop env (ResultsClosed lastBlockRead # rest) k trailer =
     (Some None, [], md_set ''last-block-read'' (show_nat (unat lastBlockRead)) trailer)"
| "select_loop env (FromResults match # rest) k trailer =
     (case archiveSearchMatchToProto env match of
        Inl err \<Rightarrow>
          (Some (Some (ErrorfWith ''unable to obtain search match proto: '' err)), [], trailer)
      | Inr response \<Rightarrow>
          (case archive_send env k of
             Some err \<Rightarrow> (Some (Some err), [], trailer)
           | None \<Rightarrow>
               (case select_loop env rest (Suc k) trailer of
                  (r, sent, trailer') \<Rightarrow> (r, response # sent, trailer'))))"

text \<open>
  What \<^verbatim>\<open>StreamMatches\<close> does besides returning. \<open>SetTrailer\<close> is the deferred
  \<^verbatim>\<open>stream.SetTrailer(trailer)\<close>, which runs when the handler returns, provided the
  \<^verbatim>\<open>defer\<close> statement has been reached.
\<close>

datatype 'r archive_effect =
    ArchiveParsedQuery string
  | ArchiveSent 'r
  | SetTrailer metadata

text \<open>
  \<^verbatim>\<open>ArchiveBackend.StreamMatches\<close>. The outcome is \<open>None\<close> when the handler never
  returns.
\<close>

definition StreamMatches ::
  "('q, 'm, 'r) archive_env \<Rightarrow> BackendRequest
     \<Rightarrow> (error, unit) outcome option \<times> 'r archive_effect list" where
  "StreamMatches env req =
     (if WithReversible req
        then (Some (Failed (Errorf ''archive backend does not support WithReversible == true'')), [])
      else if StopAtVirtualHead req
        then (Some (Failed (Errorf ''archive backend does not support StopAtVirtualHead == true'')), [])
      else if LiveMarkerInterval req \<noteq> 0
        then (Some (Failed (Errorf ''archive backend does not support LiveMarkerInterval != 0'')), [])
      else if NavigateFromBlockID req \<noteq> []
        then (Some (Failed (Errorf (''archive backend does not support NavigateFromBlockID != ''
                                     @ [CHR 0x27, CHR 0x27]))), [])
      else if NavigateFromBlockNum req \<noteq> 0
        then (Some (Failed (Errorf ''archive backend does not support NavigateFromBlockNum != 0'')), [])
      else
        (case archive_NewParsedQuery env (BackendQuery req) of
           Inl err \<Rightarrow> (Some (Failed err), [ArchiveParsedQuery (BackendQuery req)])
         | Inr bquery \<Rightarrow>
             (let trailer = md_set ''last-block-read'' ''-1'' Map.empty in
              case checkBoundaries env req of
                Some err \<Rightarrow>
                  (Some (Failed err), [ArchiveParsedQuery (BackendQuery req), SetTrailer trailer])
              | None \<Rightarrow>
                  (case select_loop env (select_receives env) 0 trailer of
                     (None, sent, trailer') \<Rightarrow>
                       (None, ArchiveParsedQuery (BackendQuery req) # map ArchiveSent sent)
                   | (Some r, sent, trailer') \<Rightarrow>
                       (Some (case r of None \<Rightarrow> Returned () | Some err \<Rightarrow> Failed err),
                        ArchiveParsedQuery (BackendQuery req) # map ArchiveSent sent
                          @ [SetTrailer trailer'])))))"

subsection \<open>Requests to the archive backend\<close>

definition plain_request :: BackendRequest where
  "plain_request =
     \<lparr> BackendQuery = ''account:eosio.token'', LowBlockNum = 0, HighBlockNum = 1000,
       Descending = False, WithReversible = False, StopAtVirtualHead = False,
       LiveMarkerInterval = 0, NavigateFromBlockID = [], NavigateFromBlockNum = 0 \<rparr>"

definition reversible_request :: BackendRequest where
  "reversible_request = plain_request \<lparr> WithReversible := True \<rparr>"

text \<open>An archive whose query delivers two matches and closes after reading block 42.\<close>

definition archive_example :: "(string, nat, nat) archive_env" where
  "archive_example =
     \<lparr> archive_NewParsedQuery = (\<lambda>q. Inr q),
       checkBoundaries = (\<lambda>_. None),
       select_receives = [FromResults 1, FromResults 2, ResultsClosed 42],
       archiveSearchMatchToProto = (\<lambda>m. Inr m),
       archive_send = (\<lambda>_. None) \<rparr>"

section \<open>Properties of the shard index\<close>

lemma Index_keeps_range:
  "StartBlock (Index s doc) = StartBlock s \<and> EndBlock (Index s doc) = EndBlock s"
  by (simp add: Index_def)

lemma end_no_wrap:
  fixes base shardSz :: u64
  assumes nz: "shardSz \<noteq> 0" and fit: "unat base + unat shardSz \<le> 2 ^ 64"
  shows "unat (base + shardSz - 1) = unat base + unat shardSz - 1"
proof -
  have m1: "unat (shardSz - 1) = unat shardSz - 1"
    using nz by (simp add: unat_minus_one)
  from nz have pos: "0 < unat shardSz" by (simp add: unat_gt_0)
  have "unat base + unat (shardSz - 1) < 2 ^ 64"
    using fit pos m1 by simp
  then have "unat (base + (shardSz - 1)) = unat base + unat (shardSz - 1)"
    by (simp add: unat_add_lem [THEN iffD1])
  moreover have "base + shardSz - 1 = base + (shardSz - 1)" by simp
  ultimately show ?thesis using m1 pos by (simp only:)
qed

text \<open>
  Claim C9. For every base block number and every shard size greater than 0, a newly
  created shard index has \<open>StartBlock = base\<close> and \<open>EndBlock = base + shardSize - 1\<close>
  (computed in \<^verbatim>\<open>uint64\<close>, as the code does), \<open>containsBlockNum n\<close> holds exactly for
  \<open>base \<le> n \<le> base + shardSize - 1\<close>, and this is the range of a shard that holds no
  document at all: the interval is the potential one and is not shrunk by emptiness.
  Whenever \<open>base + shardSize\<close> does not exceed \<open>2 ^ 64\<close> the same holds of the block
  numbers read as natural numbers.
\<close>

theorem newShardIndex_range:
  fixes base shardSz n :: u64
  assumes "shardSz > 0"
  shows "StartBlock (newShardIndex base shardSz :: 'd BigQueryShardIndex) = base
       \<and> EndBlock (newShardIndex base shardSz :: 'd BigQueryShardIndex) = base + shardSz - 1
       \<and> (containsBlockNum (newShardIndex base shardSz :: 'd BigQueryShardIndex) n
            \<longleftrightarrow> base \<le> n \<and> n \<le> base + shardSz - 1)
       \<and> docs (newShardIndex base shardSz :: 'd BigQueryShardIndex) = []
       \<and> (unat base + unat shardSz \<le> 2 ^ 64 \<longrightarrow>
            unat (EndBlock (newShardIndex base shardSz :: 'd BigQueryShardIndex))
              = unat base + unat shardSz - 1
          \<and> (containsBlockNum (newShardIndex base shardSz :: 'd BigQueryShardIndex) n
               \<longleftrightarrow> unat base \<le> unat n \<and> unat n \<le> unat base + unat shardSz - 1))"
proof -
  define sh where "sh = (newShardIndex base shardSz :: 'd BigQueryShardIndex)"
  from assms have nz: "shardSz \<noteq> 0" by auto
  have s: "StartBlock sh = base" and e: "EndBlock sh = base + shardSz - 1" and d: "docs sh = []"
    using nz by (simp_all add: sh_def newShardIndex_def Let_def)
  have c: "containsBlockNum sh n \<longleftrightarrow> base \<le> n \<and> n \<le> base + shardSz - 1"
    by (simp add: containsBlockNum_def s e)
  have "unat (EndBlock sh) = unat base + unat shardSz - 1 \<and>
        (containsBlockNum sh n \<longleftrightarrow>
           unat base \<le> unat n \<and> unat n \<le> unat base + unat shardSz - 1)"
    if fit: "unat base + unat shardSz \<le> 2 ^ 64"
  proof -
    have "unat (base + shardSz - 1) = unat base + unat shardSz - 1"
      using nz fit by (rule end_no_wrap)
    then show ?thesis
      by (simp add: c e word_le_nat_alt)
  qed
  with s e c d show ?thesis
    unfolding sh_def by blast
qed

theorem newShardIndex_range_witness:
  "(5000 :: u64) > 0
   \<and> StartBlock (newShardIndex 10000 5000 :: unit BigQueryShardIndex) = 10000
   \<and> EndBlock (newShardIndex 10000 5000 :: unit BigQueryShardIndex) = 14999
   \<and> containsBlockNum (newShardIndex 10000 5000 :: unit BigQueryShardIndex) 14999
   \<and> \<not> containsBlockNum (newShardIndex 10000 5000 :: unit BigQueryShardIndex) 15000
   \<and> unat (10000 :: u64) + unat (5000 :: u64) \<le> 2 ^ 64
   \<and> unat (EndBlock (newShardIndex 10000 5000 :: unit BigQueryShardIndex)) = 14999"
proof -
  have h: "(5000 :: u64) > 0" by simp
  have fit: "unat (10000 :: u64) + unat (5000 :: u64) \<le> 2 ^ 64" by simp
  note r = newShardIndex_range [OF h, where base = 10000 and 'd = unit]
  from r [of 14999] r [of 15000] h fit show ?thesis by simp
qed


section \<open>Properties of the indexer bootstrap\<close>

text \<open>With a shard size of 0 the remainder panics, whatever the start block is.\<close>

lemma Bootstrap_zero_shardSize:
  "shardSize i = 0 \<Longrightarrow> fst (Bootstrap pb i n) = Panicked"
  by (simp add: Bootstrap_def Let_def)

text \<open>
  Claim C2. For every start block number, \<open>Bootstrap\<close> fails with its own error, whose
  message begins with "indexer only starts RIGHT BEFORE the index boundaries", if and
  only if the start block is neither a multiple of the shard size nor 1; the message
  ends with the start block in decimal. Otherwise the outcome is whatever the pipeline's
  bootstrap gives. (The remainder is taken by a shard size that is not 0; on a zero shard
  size the remainder panics.)
\<close>

theorem Bootstrap_fails_iff_unaligned:
  assumes "shardSize i \<noteq> 0"
  shows "((\<exists>rest. fst (Bootstrap pb i n) = Failed (IndexerError (boundary_message @ rest)))
            \<longleftrightarrow> n mod shardSize i \<noteq> 0 \<and> n \<noteq> 1)
       \<and> fst (Bootstrap pb i n) =
           (if n mod shardSize i \<noteq> 0 \<and> n \<noteq> 1
            then Failed (IndexerError (boundary_message @ show_nat (unat n)))
            else case pb n of Some e \<Rightarrow> Failed (PipelineError e) | None \<Rightarrow> Returned ())
       \<and> StartBlockNum (snd (Bootstrap pb i n)) = n"
  using assms by (auto simp: Bootstrap_def Let_def split: option.splits)

theorem Bootstrap_fails_iff_unaligned_witness:
  "shardSize \<lparr> StartBlockNum = 0, shardSize = 5000 \<rparr> \<noteq> 0
   \<and> (5001 :: u64) mod 5000 \<noteq> 0 \<and> (5001 :: u64) \<noteq> 1
   \<and> fst (Bootstrap (\<lambda>_. None :: unit option) \<lparr> StartBlockNum = 0, shardSize = 5000 \<rparr> 5001)
       = Failed (IndexerError (boundary_message @ ''5001''))
   \<and> fst (Bootstrap (\<lambda>_. None :: unit option) \<lparr> StartBlockNum = 0, shardSize = 5000 \<rparr> 5000)
       = Returned ()
   \<and> fst (Bootstrap (\<lambda>_. None :: unit option) \<lparr> StartBlockNum = 0, shardSize = 5000 \<rparr> 1)
       = Returned ()"
proof -
  have h: "shardSize \<lparr> StartBlockNum = 0, shardSize = 5000 \<rparr> \<noteq> 0" by simp
  have d: "show_nat 5001 = ''5001''" by (simp add: show_nat.simps digit_char_def)
  note r = Bootstrap_fails_iff_unaligned [OF h, where pb = "\<lambda>_. None :: unit option"]
  from r [of 5001] r [of 5000] r [of 1] h d show ?thesis by simp
qed


section \<open>Properties of the start-block resolution\<close>

lemma sint_small:
  fixes w :: u64
  assumes "uint w < 2 ^ 63"
  shows "sint w = uint w"
proof -
  have "sint w = signed_take_bit 63 (uint w)" by (simp add: sint_uint)
  also have "\<dots> = uint w"
    using assms by (intro signed_take_bit_int_eq_self) (auto intro: order_trans [of _ 0])
  finally show ?thesis .
qed

lemma sint_word_of_int_64:
  fixes k :: int
  assumes "- (2 ^ 63) \<le> k" "k < 2 ^ 63"
  shows "sint (word_of_int k :: u64) = k"
  using assms by (simp add: sint_sbintrunc' signed_take_bit_int_eq_self)

lemma word_of_int_64_eq_0:
  fixes k :: int
  assumes "- (2 ^ 63) \<le> k" "k < 2 ^ 63"
  shows "(word_of_int k :: u64) = 0 \<longleftrightarrow> k = 0"
proof
  assume "(word_of_int k :: u64) = 0"
  then have "sint (word_of_int k :: u64) = 0" by simp
  with assms show "k = 0" by (simp only: sint_word_of_int_64)
qed simp

lemma sint_bounds_64:
  fixes w :: u64
  shows "- (2 ^ 63) \<le> sint w" and "sint w < 2 ^ 63"
  using sint_ge [of w] sint_lt [of w] by simp_all

lemma rem_i64_nonneg:
  fixes a b :: u64
  assumes "0 \<le> sint a" "0 < sint b"
  shows "rem_i64 a b = word_of_int (sint a mod sint b)"
  using assms by (simp add: rem_i64_def signed_modulo_int_def sgn_if)

lemma rem_i64_neg:
  fixes a b :: u64
  assumes "sint a < 0" "0 < sint b"
  shows "rem_i64 a b = word_of_int (- ((- sint a) mod sint b))"
  using assms by (simp add: rem_i64_def signed_modulo_int_def sgn_if)

lemma resolveStartBlock_zero_shardSize:
  "resolveStartBlock startBlock 0 irr = Panicked"
  by (simp add: resolveStartBlock_def Let_def)

text \<open>A start block that is not negative: returned when aligned, an error otherwise.\<close>

lemma resolveStartBlock_absolute:
  fixes startBlock shardSz irr :: u64
  assumes s: "0 \<le> sint startBlock"
    and m: "0 < uint shardSz" "uint shardSz < 2 ^ 63"
  shows "resolveStartBlock startBlock shardSz irr =
           (if sint startBlock mod uint shardSz = 0 then Returned startBlock
            else Failed (''start block '' @ show_int (sint startBlock)
                        @ '' misaligned with shard size '' @ show_nat (unat shardSz)))"
proof -
  have M: "sint shardSz = uint shardSz" using m(2) by (rule sint_small)
  have nz: "shardSz \<noteq> 0" using m(1) by auto
  have r: "rem_i64 startBlock shardSz = word_of_int (sint startBlock mod uint shardSz)"
    using rem_i64_nonneg [of startBlock shardSz] s m(1) M by simp
  have lo: "0 \<le> sint startBlock mod uint shardSz"
    and hi: "sint startBlock mod uint shardSz < uint shardSz"
    using m(1) by simp_all
  have z: "rem_i64 startBlock shardSz = 0 \<longleftrightarrow> sint startBlock mod uint shardSz = 0"
    unfolding r using lo hi m(2) by (intro word_of_int_64_eq_0) linarith+
  show ?thesis
    using s nz z by (simp add: resolveStartBlock_def word_sle_eq)
qed

lemma sint_relative_sum:
  fixes startBlock irr :: u64
  assumes s: "sint startBlock < 0" and i: "uint irr < 2 ^ 63"
  shows "sint (irr + startBlock) = uint irr + sint startBlock"
proof -
  have "irr + startBlock = word_of_int (uint irr + sint startBlock)" by simp
  moreover have "- (2 ^ 63) \<le> uint irr + sint startBlock"
    using sint_bounds_64(1) [of startBlock] uint_ge_0 [of irr] by linarith
  moreover have "uint irr + sint startBlock < 2 ^ 63"
    using s i by linarith
  ultimately show ?thesis by (simp only: sint_word_of_int_64)
qed

text \<open>A negative start block whose sum with the irreversible block is not negative.\<close>

lemma resolveStartBlock_relative_nonneg:
  fixes startBlock shardSz irr :: u64
  assumes s: "sint startBlock < 0" and i: "uint irr < 2 ^ 63"
    and m: "0 < uint shardSz" "uint shardSz < 2 ^ 63"
    and a: "0 \<le> uint irr + sint startBlock"
  shows "\<exists>r. resolveStartBlock startBlock shardSz irr = Returned r
           \<and> uint r = (uint irr + sint startBlock)
                        - (uint irr + sint startBlock) mod uint shardSz"
proof -
  define A where "A = uint irr + sint startBlock"
  have M: "sint shardSz = uint shardSz" using m(2) by (rule sint_small)
  have nz: "shardSz \<noteq> 0" using m(1) by auto
  have sA: "sint (irr + startBlock) = A"
    unfolding A_def using s i by (rule sint_relative_sum)
  have A_hi: "A < 2 ^ 63" using s i by (simp add: A_def)
  have r: "rem_i64 (irr + startBlock) shardSz = word_of_int (A mod uint shardSz)"
    using rem_i64_nonneg [of "irr + startBlock" shardSz] a m(1) M sA by (simp add: A_def)
  have w: "irr + startBlock = word_of_int A" by (simp add: A_def)
  have al: "irr + startBlock - rem_i64 (irr + startBlock) shardSz
              = word_of_int (A - A mod uint shardSz)"
    unfolding r by (subst w) simp
  have lo: "0 \<le> A - A mod uint shardSz"
    using a zmod_le_nonneg_dividend [of A "uint shardSz"] by (simp add: A_def)
  have hi: "A - A mod uint shardSz < 2 ^ 63"
    using A_hi m(1) Euclidean_Rings.pos_mod_sign [of "uint shardSz" A] by linarith
  define K where "K = A - A mod uint shardSz"
  have si: "sint (word_of_int K :: u64) = K"
    using lo hi unfolding K_def [symmetric] by (intro sint_word_of_int_64) linarith+
  with lo have nn: "\<not> (word_of_int K :: u64) <s 0"
    by (simp add: word_sless_alt K_def)
  have "K < 2 ^ 64"
    using hi unfolding K_def [symmetric] by simp
  then have "take_bit 64 K = K"
    using lo unfolding K_def [symmetric] by (intro take_bit_int_eq_self)
  then have ui: "uint (word_of_int K :: u64) = K"
    by (simp add: uint_word_of_int take_bit_eq_mod)
  have neg: "\<not> 0 \<le>s startBlock" using s by (simp add: word_sle_eq)
  have "resolveStartBlock startBlock shardSz irr = Returned (word_of_int K)"
    using neg nz nn by (simp add: resolveStartBlock_def Let_def al K_def)
  with ui show ?thesis unfolding K_def A_def by blast
qed

text \<open>A negative start block that reaches a whole shard or more below block 0.\<close>

lemma resolveStartBlock_relative_too_large:
  fixes startBlock shardSz irr :: u64
  assumes s: "sint startBlock < 0" and i: "uint irr < 2 ^ 63"
    and m: "0 < uint shardSz" "uint shardSz < 2 ^ 63"
    and a: "uint irr + sint startBlock \<le> - uint shardSz"
  shows "\<exists>msg. resolveStartBlock startBlock shardSz irr = Failed msg"
proof -
  define A where "A = uint irr + sint startBlock"
  define V where "V = A + (- A) mod uint shardSz"
  have M: "sint shardSz = uint shardSz" using m(2) by (rule sint_small)
  have nz: "shardSz \<noteq> 0" using m(1) by auto
  have sA: "sint (irr + startBlock) = A"
    unfolding A_def using s i by (rule sint_relative_sum)
  have A_neg: "A < 0" using a m(1) by (simp add: A_def)
  have A_lo: "- (2 ^ 63) \<le> A"
    using sint_bounds_64(1) [of "irr + startBlock"] sA by simp
  have r: "rem_i64 (irr + startBlock) shardSz = word_of_int (- ((- A) mod uint shardSz))"
    using rem_i64_neg [of "irr + startBlock" shardSz] A_neg m(1) M sA by simp
  have w: "irr + startBlock = word_of_int A" by (simp add: A_def)
  have al: "irr + startBlock - rem_i64 (irr + startBlock) shardSz = word_of_int V"
    unfolding r V_def by (subst w) simp
  have "uint shardSz \<le> - A" using a by (simp add: A_def)
  then have "0 < (- A) div uint shardSz"
    using m(1) by (simp add: pos_imp_zdiv_pos_iff)
  then have "uint shardSz * 1 \<le> uint shardSz * ((- A) div uint shardSz)"
    using m(1) by (intro mult_left_mono) linarith+
  moreover have "(- A) mod uint shardSz = - A - uint shardSz * ((- A) div uint shardSz)"
    by (simp add: minus_mult_div_eq_mod)
  ultimately have Vle: "V \<le> - uint shardSz"
    unfolding V_def by linarith
  then have Vneg: "V < 0" using m(1) by linarith
  have Vlo: "- (2 ^ 63) \<le> V"
    using A_lo m(1) Euclidean_Rings.pos_mod_sign [of "uint shardSz" "- A"] unfolding V_def by linarith
  have "sint (word_of_int V :: u64) = V"
    using Vlo Vneg by (intro sint_word_of_int_64) linarith+
  with Vneg have lt: "(word_of_int V :: u64) <s 0"
    by (simp add: word_sless_alt)
  have neg: "\<not> 0 \<le>s startBlock" using s by (simp add: word_sle_eq)
  show ?thesis
    using neg nz lt by (simp add: resolveStartBlock_def Let_def al)
qed

text \<open>
  In between, where the sum is negative but less than one shard below block 0, the
  truncated remainder equals the sum itself and the function returns block 0.
\<close>

lemma resolveStartBlock_relative_band:
  fixes startBlock shardSz irr :: u64
  assumes s: "sint startBlock < 0" and i: "uint irr < 2 ^ 63"
    and m: "0 < uint shardSz" "uint shardSz < 2 ^ 63"
    and a: "- uint shardSz < uint irr + sint startBlock" "uint irr + sint startBlock < 0"
  shows "resolveStartBlock startBlock shardSz irr = Returned 0"
proof -
  define A where "A = uint irr + sint startBlock"
  have M: "sint shardSz = uint shardSz" using m(2) by (rule sint_small)
  have nz: "shardSz \<noteq> 0" using m(1) by auto
  have sA: "sint (irr + startBlock) = A"
    unfolding A_def using s i by (rule sint_relative_sum)
  have "(- A) mod uint shardSz = - A"
    using a by (simp add: A_def)
  then have r: "rem_i64 (irr + startBlock) shardSz = word_of_int A"
    using rem_i64_neg [of "irr + startBlock" shardSz] a(2) m(1) M sA by (simp add: A_def)
  have w: "irr + startBlock = word_of_int A" by (simp add: A_def)
  have al: "irr + startBlock - rem_i64 (irr + startBlock) shardSz = 0"
    unfolding r by (subst w) simp
  have neg: "\<not> 0 \<le>s startBlock" using s by (simp add: word_sle_eq)
  show ?thesis
    using neg nz by (simp add: resolveStartBlock_def Let_def al)
qed

text \<open>
  Claim C4, as stated, at three inputs.
  At \<open>startBlock = -100\<close>, \<open>irr = 50\<close>, \<open>shardSize = 1000\<close> the sum
  \<open>irr + startBlock = -50\<close> aligned down to a multiple of 1000 is \<open>-1000\<close>, a negative
  value, so the claim has the function fail; it returns block 0.
  At \<open>startBlock = 4\<close> and \<open>shardSize = 2 ^ 64 - 2\<close> the start block is not a multiple
  of the shard size, so the claim has the function fail; \<^verbatim>\<open>int64(shardSize)\<close> is
  \<open>-2\<close> and the function returns 4.
  At \<open>startBlock = -100\<close>, \<open>irr = 2 ^ 64 - 1\<close>, \<open>shardSize = 1000\<close> the claim has the
  function return \<open>irr + startBlock\<close> aligned down, 18446744073709551000;
  \<^verbatim>\<open>int64(irrBlockNum)\<close> is \<open>-1\<close> and the function returns block 0.
\<close>

theorem resolveStartBlock_counterexample:
  "sint (- 100 :: u64) = - 100
   \<and> ((50 + (- 100)) - (50 + (- 100)) mod 1000 :: int) = - 1000
   \<and> resolveStartBlock (- 100) 1000 50 = Returned 0
   \<and> uint (- 2 :: u64) = 18446744073709551614
   \<and> (4 :: int) mod 18446744073709551614 \<noteq> 0
   \<and> resolveStartBlock 4 (- 2) 50 = Returned 4
   \<and> uint (- 1 :: u64) = 18446744073709551615
   \<and> ((18446744073709551615 + (- 100)) - (18446744073709551615 + (- 100)) mod 1000 :: int)
        = 18446744073709551000
   \<and> resolveStartBlock (- 100) 1000 (- 1) = Returned 0"
proof -
  have u: "uint (- 1 :: u64) = 18446744073709551615" "uint (- 2 :: u64) = 18446744073709551614"
    by (simp_all add: uint_word_ariths)
  have r: "resolveStartBlock (- 100) 1000 50 = Returned 0"
    "resolveStartBlock 4 (- 2) 50 = Returned 4"
    "resolveStartBlock (- 100) 1000 (- 1) = Returned 0"
    by (simp_all add: resolveStartBlock_def rem_i64_def word_sle_eq word_sless_alt Let_def)
  show ?thesis
    by (simp only: u r) simp
qed

text \<open>
  Claim C4, amended. For a shard size \<open>0 < shardSize < 2 ^ 63\<close> and an irreversible
  block below \<open>2 ^ 63\<close>: a start block that is not negative is returned unchanged when
  it is a multiple of the shard size and is an error otherwise; a negative start block
  with \<open>irr + startBlock \<ge> 0\<close> resolves to \<open>irr + startBlock\<close> aligned down to a
  multiple of the shard size; and a negative start block with
  \<open>irr + startBlock \<le> - shardSize\<close> is an error.
\<close>

theorem resolveStartBlock_amended:
  fixes startBlock shardSz irr :: u64
  assumes "0 < uint shardSz" and "uint shardSz < 2 ^ 63" and "uint irr < 2 ^ 63"
  shows "(0 \<le> sint startBlock \<and> sint startBlock mod uint shardSz = 0 \<longrightarrow>
            resolveStartBlock startBlock shardSz irr = Returned startBlock)
       \<and> (0 \<le> sint startBlock \<and> sint startBlock mod uint shardSz \<noteq> 0 \<longrightarrow>
            (\<exists>msg. resolveStartBlock startBlock shardSz irr = Failed msg))
       \<and> (sint startBlock < 0 \<and> 0 \<le> uint irr + sint startBlock \<longrightarrow>
            (\<exists>r. resolveStartBlock startBlock shardSz irr = Returned r
                \<and> uint r = (uint irr + sint startBlock)
                             - (uint irr + sint startBlock) mod uint shardSz))
       \<and> (sint startBlock < 0 \<and> uint irr + sint startBlock \<le> - uint shardSz \<longrightarrow>
            (\<exists>msg. resolveStartBlock startBlock shardSz irr = Failed msg))"
  using assms
    resolveStartBlock_absolute [of startBlock shardSz irr]
    resolveStartBlock_relative_nonneg [of startBlock irr shardSz]
    resolveStartBlock_relative_too_large [of startBlock irr shardSz]
  by simp

theorem resolveStartBlock_amended_witness:
  "0 < uint (1000 :: u64) \<and> uint (1000 :: u64) < 2 ^ 63 \<and> uint (1000000 :: u64) < 2 ^ 63
   \<and> 0 \<le> sint (7000 :: u64) \<and> sint (7000 :: u64) mod uint (1000 :: u64) = 0
   \<and> resolveStartBlock 7000 1000 1000000 = Returned 7000
   \<and> sint (7001 :: u64) mod uint (1000 :: u64) \<noteq> 0
   \<and> (\<exists>msg. resolveStartBlock 7001 1000 1000000 = Failed msg)
   \<and> sint (- 100 :: u64) < 0 \<and> 0 \<le> uint (1000000 :: u64) + sint (- 100 :: u64)
   \<and> (\<exists>r. resolveStartBlock (- 100) 1000 1000000 = Returned r \<and> uint r = 999000)
   \<and> uint (50 :: u64) + sint (- 1100 :: u64) \<le> - uint (1000 :: u64)
   \<and> (\<exists>msg. resolveStartBlock (- 1100) 1000 50 = Failed msg)"
proof -
  have h: "0 < uint (1000 :: u64)" "uint (1000 :: u64) < 2 ^ 63"
    "uint (1000000 :: u64) < 2 ^ 63" "uint (50 :: u64) < 2 ^ 63"
    by simp_all
  note big = resolveStartBlock_amended [OF h(1) h(2) h(3)]
  note small = resolveStartBlock_amended [OF h(1) h(2) h(4)]
  from big [of 7000] big [of 7001] big [of "- 100"] small [of "- 1100"] h
  show ?thesis by simp
qed


section \<open>Properties of the next base block\<close>

lemma scan_remote_chain:
  "scan_remote base shardSz prev files = follow_chain shardSz prev (candidates base files)"
  by (induction files arbitrary: prev)
     (auto simp: candidates_def List.map_filter_simps Let_def not_le split: option.splits)

lemma NextBaseBlockAfter_zero_shardSize:
  "NextBaseBlockAfter 0 (Some files) base = None"
  by (simp add: NextBaseBlockAfter_def alignStartBlock_def)

text \<open>When the listing fails the start block comes back as it is, not aligned.\<close>

lemma NextBaseBlockAfter_listing_error:
  "NextBaseBlockAfter shardSz None base = Some base"
  by (simp add: NextBaseBlockAfter_def)

lemma aligned_is_multiple:
  fixes b m :: u64
  shows "(b - b mod m) mod m = 0"
proof -
  have le: "b mod m \<le> b" by (simp add: word_le_nat_alt unat_mod)
  have "unat (b - b mod m) = unat b - unat (b mod m)"
    using le by (simp add: unat_sub)
  also have "\<dots> = unat b - unat b mod unat m" by (simp add: unat_mod)
  also have "\<dots> = unat b div unat m * unat m" by (simp add: minus_mod_eq_div_mult)
  finally have "unat ((b - b mod m) mod m) = 0"
    by (simp add: unat_mod)
  then show ?thesis by (simp add: unat_eq_zero)
qed

text \<open>The expression is not anchored: a path in front of the name does not matter.\<close>

lemma FindStringSubmatch_unanchored:
  "FindStringSubmatch ''bigquery-shards-5000/0000005000.avro'' = Some ''0000005000''"
  "FindStringSubmatch ''0000005000.avro.bak'' = Some ''0000005000''"
  by (simp_all add: matches_here_def is_digit_def)

lemma NextBaseBlockAfter_path:
  "NextBaseBlockAfter 5000 (Some [''bigquery-shards-5000/0000005000.avro'']) 0 = Some 5000"
proof -
  have "startBlockFromFileName ''0000005000'' = 5000"
    by (simp add: startBlockFromFileName_def digit_val_def)
  then show ?thesis
    by (simp add: NextBaseBlockAfter_def alignStartBlock_def FindStringSubmatch_unanchored
        del: FindStringSubmatch.simps)
qed

lemma NextBaseBlockAfter_example:
  "NextBaseBlockAfter 5000 (Some remote_example) 0 = Some 5000"
  "NextBaseBlockAfter 5000 (Some remote_example) 5000 = Some 5000"
  by (simp_all add: NextBaseBlockAfter_def remote_example_def matches_here_def is_digit_def
      startBlockFromFileName_def digit_val_def alignStartBlock_def)

text \<open>
  Claim C3, as stated, on the remote files \<open>0000000000.avro\<close>, \<open>0000005000.avro\<close>,
  \<open>0000015000.avro\<close> with shard size 5000: the claim has the function return 5000 from
  0 and then 10000. From 5000 the only later file, 15000, lies beyond \<open>5000 + 5000\<close>,
  the scan stops at once, and the function returns 5000 again. And a listed name with
  its directory in front, which the anchored expression of the claim does not match, is
  taken as a shard: from 0 the function returns its base 5000, not \<open>align 0 = 0\<close>.
\<close>

theorem NextBaseBlockAfter_counterexample:
  "NextBaseBlockAfter 5000 (Some remote_example) 0 = Some 5000
   \<and> NextBaseBlockAfter 5000 (Some remote_example) 5000 = Some 5000
   \<and> NextBaseBlockAfter 5000 (Some remote_example) 5000 \<noteq> Some 10000
   \<and> NextBaseBlockAfter 5000 (Some [''bigquery-shards-5000/0000005000.avro'']) 0 = Some 5000"
  by (simp only: NextBaseBlockAfter_example NextBaseBlockAfter_path) simp

text \<open>
  Claim C3, amended. For a shard size that is not 0, \<open>NextBaseBlockAfter base\<close> scans
  the remote listing in its order, takes from every name the leftmost ten digits that
  are followed by \<open>.avro\<close> (names without such a place are skipped), follows the chain
  of bases \<open>base'\<close> with \<open>base' > base\<close> and \<open>base' \<le> previous + shardSize\<close>, stops at
  the first gap and returns the last base of the chain aligned to the shard size, a
  multiple of the shard size; it returns \<open>align base\<close> when there is no candidate.
  With the three files above and shard size 5000 it returns 5000 from 0 and does not
  reach 15000.
\<close>

theorem NextBaseBlockAfter_amended:
  assumes "shardSz \<noteq> 0"
  shows "NextBaseBlockAfter shardSz (Some files) base = Some (spec_nextBaseAfter shardSz files base)
       \<and> spec_nextBaseAfter shardSz files base mod shardSz = 0
       \<and> (candidates base files = [] \<longrightarrow>
            NextBaseBlockAfter shardSz (Some files) base = Some (base - base mod shardSz))"
  using assms
  by (simp add: NextBaseBlockAfter_def alignStartBlock_def spec_nextBaseAfter_def
      scan_remote_chain aligned_is_multiple Let_def)

theorem NextBaseBlockAfter_amended_witness:
  "(5000 :: u64) \<noteq> 0
   \<and> candidates 0 remote_example = [5000, 15000]
   \<and> NextBaseBlockAfter 5000 (Some remote_example) 0 = Some 5000
   \<and> (5000 :: u64) mod 5000 = 0
   \<and> candidates 5001 [''readme.txt''] = []
   \<and> NextBaseBlockAfter 5000 (Some [''readme.txt'']) 5001 = Some 5000"
proof -
  have h: "(5000 :: u64) \<noteq> 0" by simp
  have c: "candidates 0 remote_example = [5000, 15000]"
    by (simp add: candidates_def remote_example_def List.map_filter_simps matches_here_def
        is_digit_def startBlockFromFileName_def digit_val_def)
  have e: "candidates b [''readme.txt''] = []" for b
    by (simp add: candidates_def List.map_filter_simps matches_here_def)
  from NextBaseBlockAfter_amended [OF h, of remote_example 0]
    NextBaseBlockAfter_amended [OF h, of "[''readme.txt'']" 5001] h c e
  show ?thesis by (simp add: spec_nextBaseAfter_def)
qed


section \<open>Properties of the fork resolver\<close>

subsection \<open>The bounds of the requested blocks\<close>

lemma boundaries_step_min_max:
  "boundaries_step ref (lo, hi) = (min (BlockNum ref) lo, max (BlockNum ref) hi)"
  by (auto simp: boundaries_step_def Let_def min_def max_def)

lemma fold_boundaries_step:
  "fold boundaries_step refs (lo, hi) =
     (fold min (map BlockNum refs) lo, fold max (map BlockNum refs) hi)"
  by (induction refs arbitrary: lo hi) (simp_all add: boundaries_step_min_max)

lemma boundaries_nonempty:
  assumes "refs \<noteq> []"
  shows "boundaries refs = Some (Min (BlockNum ` set refs), Max (BlockNum ` set refs))"
proof -
  from assms obtain r rs where refs: "refs = r # rs" by (cases refs) auto
  have s: "set (BlockNum r # map BlockNum refs) = BlockNum ` set refs"
    by (auto simp: refs)
  have "fold min (map BlockNum refs) (BlockNum r) = Min (set (BlockNum r # map BlockNum refs))"
    by (rule Min.set_eq_fold [symmetric])
  moreover
  have "fold max (map BlockNum refs) (BlockNum r) = Max (set (BlockNum r # map BlockNum refs))"
    by (rule Max.set_eq_fold [symmetric])
  ultimately have "fold boundaries_step refs (BlockNum r, BlockNum r)
      = (Min (BlockNum ` set refs), Max (BlockNum ` set refs))"
    by (simp only: fold_boundaries_step s)
  then show ?thesis
    by (simp add: boundaries_def refs)
qed

subsection \<open>A requested block that is not found\<close>

text \<open>Blocks inside the window that are not asked for leave the handler as it is.\<close>

lemma handle_blocks_skip:
  assumes "\<forall>b \<in> set xs. \<not> Num b > highest + MaxLookupBlocks \<and> ID b \<notin> m" and "m \<noteq> {}"
  shows "handle_blocks highest (xs @ ys) m out = handle_blocks highest ys m out"
  using assms by (induction xs) (auto simp: Let_def)

lemma example_block_in_window:
  assumes "n < 10501"
  shows "\<not> Num (example_block n) > 500 + MaxLookupBlocks \<and> ID (example_block n) \<notin> {''dead''}"
proof -
  have "unat (of_nat n :: u64) = n"
    using assms by (simp add: unat_of_nat take_bit_nat_eq_self)
  then have "(of_nat n :: u64) \<le> 10500"
    using assms by (simp add: word_le_nat_alt)
  then show ?thesis
    by (simp add: example_block_def MaxLookupBlocks_def not_less)
qed

lemma example_source:
  "file_source example_env 500 = map example_block [500 ..< 10501] @ [example_block 10501]"
proof -
  have "[500 ..< Suc 10501] = [500 ..< 10501] @ [10501 :: nat]"
    by (rule upt_Suc_append) simp
  moreover have "unat (500 :: u64) + 10002 = Suc 10501" by simp
  moreover have "unat (500 :: u64) = 500" by simp
  moreover have "file_source example_env 500
      = map example_block [unat (500 :: u64) ..< unat (500 :: u64) + 10002]"
    by (simp only: example_env_def fr_env.simps)
  ultimately show ?thesis
    by (simp only: map_append list.map)
qed

lemma example_fetch:
  "getBlocksDescending example_env example_refs
     = Failed (Status NotFound ''not found within 10000 blocks'')"
proof -
  have b: "boundaries example_refs = Some (500, 500)"
    by (simp add: boundaries_def example_refs_def boundaries_step_def)
  have m: "toMap example_refs = {''dead''}"
    by (simp add: toMap_def example_refs_def)
  have skip: "handle_blocks 500 (map example_block [500 ..< 10501] @ [example_block 10501]) {''dead''} []
      = handle_blocks 500 [example_block 10501] {''dead''} []"
  proof (rule handle_blocks_skip)
    show "\<forall>b \<in> set (map example_block [500 ..< 10501]).
            \<not> Num b > 500 + MaxLookupBlocks \<and> ID b \<notin> {''dead''}"
    proof
      fix b assume "b \<in> set (map example_block [500 ..< 10501])"
      then obtain n where "b = example_block n" and "n < 10501"
        unfolding set_map set_upt by auto
      then show "\<not> Num b > 500 + MaxLookupBlocks \<and> ID b \<notin> {''dead''}"
        using example_block_in_window by simp
    qed
  qed simp
  have d: "show_nat (unat MaxLookupBlocks) = ''10000''"
    by (simp add: MaxLookupBlocks_def show_nat.simps digit_char_def)
  have last: "handle_blocks 500 [example_block 10501] {''dead''} []
      = ([], False, Status NotFound (''not found within '' @ ''10000'' @ '' blocks''))"
    by (simp add: d) (simp add: example_block_def MaxLookupBlocks_def)
  have h: "handle_blocks 500 (file_source example_env 500) (toMap example_refs) []
      = ([], False, Status NotFound ''not found within 10000 blocks'')"
    by (simp only: example_source m skip last append.simps)
  have c: "\<not> ctx_done example_env" by (simp only: example_env_def fr_env.simps) simp
  show ?thesis
    by (simp add: getBlocksDescending_def b c h Let_def)
qed

lemma example_stream:
  "StreamUndoMatches example_env example_request
     = (Returned (), [ParsedQuery ''account:eosio.token'', FetchedBlocks example_refs])"
proof -
  have ne: "example_refs \<noteq> []" by (simp add: example_refs_def)
  have p: "NewParsedQuery example_env = Inr" by (simp only: example_env_def fr_env.simps)
  show ?thesis
    by (simp add: StreamUndoMatches_def example_request_def example_fetch ne p)
qed


text \<open>A fetch that fails is not reported by the service, whatever the error is.\<close>

lemma StreamUndoMatches_ignores_fetch_error:
  assumes "ForkedBlockRefs req \<noteq> []"
    and "NewParsedQuery env (Query req) = Inr bquery"
    and "getBlocksDescending env (ForkedBlockRefs req) = Failed err"
  shows "StreamUndoMatches env req
           = (Returned (), [ParsedQuery (Query req), FetchedBlocks (ForkedBlockRefs req)])"
  using assms by (simp add: StreamUndoMatches_def)

text \<open>
  Claim C1, at the request for block 500 with id \<open>dead\<close> on a store that holds the
  blocks 500 to 10501, none with that id. The handler gives up at block 10501, the first
  one beyond \<open>500 + MaxLookupBlocks\<close>, and \<open>getBlocksDescending\<close> returns the status
  \<open>NotFound\<close> with the message "not found within 10000 blocks". \<open>StreamUndoMatches\<close>
  does not look at that error: it sends nothing and returns \<open>nil\<close>, so the stream ends
  without an error.
\<close>

theorem StreamUndoMatches_not_found_dropped:
  "getBlocksDescending example_env (ForkedBlockRefs example_request)
     = Failed (Status NotFound ''not found within 10000 blocks'')
   \<and> StreamUndoMatches example_env example_request
     = (Returned (), [ParsedQuery ''account:eosio.token'', FetchedBlocks example_refs])"
  using example_fetch example_stream by (simp add: example_request_def)


subsection \<open>The order of the matches sent\<close>

lemma sent_matches_append: "sent_matches (es @ fs) = sent_matches es @ sent_matches fs"
  by (induction es rule: sent_matches.induct) simp_all

lemma sent_matches_map_Sent: "sent_matches (map Sent ms) = ms"
  by (induction ms) simp_all

lemma set_insert_descending: "set (insert_descending b cs) = insert b (set cs)"
  by (induction cs) auto

lemma sorted_insert_descending:
  "sorted_wrt (\<lambda>a b. Num a \<ge> Num b) cs \<Longrightarrow> sorted_wrt (\<lambda>a b. Num a \<ge> Num b) (insert_descending b cs)"
  by (induction cs) (auto simp: set_insert_descending)

lemma distinct_insert_descending:
  "distinct (map ID (insert_descending b cs)) \<longleftrightarrow> ID b \<notin> ID ` set cs \<and> distinct (map ID cs)"
  by (induction cs) (auto simp: set_insert_descending)

lemma set_sortDescending: "set (sortDescending bs) = set bs"
  by (induction bs) (simp_all add: sortDescending_def set_insert_descending)

lemma sorted_sortDescending: "sorted_wrt (\<lambda>a b. Num a \<ge> Num b) (sortDescending bs)"
  by (induction bs) (simp_all add: sortDescending_def sorted_insert_descending)

lemma distinct_sortDescending:
  "distinct (map ID (sortDescending bs)) \<longleftrightarrow> distinct (map ID bs)"
  by (induction bs)
     (simp_all add: sortDescending_def distinct_insert_descending
        set_sortDescending [unfolded sortDescending_def])

lemma handle_blocks_out:
  assumes "handle_blocks highest blks m out = (out', complete, err)"
    and "distinct (map ID out)" and "ID ` set out \<inter> m = {}"
  shows "distinct (map ID out') \<and> ID ` set out' \<subseteq> ID ` set out \<union> m"
  using assms
proof (induction blks arbitrary: m out)
  case Nil
  then show ?case by auto
next
  case (Cons blk blks)
  show ?case
  proof (cases "Num blk > highest + MaxLookupBlocks")
    case True
    with Cons.prems show ?thesis by auto
  next
    case False
    define out1 where "out1 = (if ID blk \<in> m then out @ [blk] else out)"
    define m1 where "m1 = (if ID blk \<in> m then m - {ID blk} else m)"
    have d1: "distinct (map ID out1)" and i1: "ID ` set out1 \<inter> m1 = {}"
      and s1: "ID ` set out1 \<union> m1 \<subseteq> ID ` set out \<union> m"
      using Cons.prems(2,3) by (auto simp: out1_def m1_def)
    show ?thesis
    proof (cases "m1 = {}")
      case True
      with Cons.prems(1) False have "out' = out1"
        by (simp add: Let_def out1_def m1_def)
      with d1 s1 show ?thesis by auto
    next
      case ne: False
      with Cons.prems(1) False have "handle_blocks highest blks m1 out1 = (out', complete, err)"
        by (simp add: Let_def out1_def m1_def)
      from Cons.IH [OF this d1 i1] have "distinct (map ID out')"
        and "ID ` set out' \<subseteq> ID ` set out1 \<union> m1" by simp_all
      with s1 show ?thesis by blast
    qed
  qed
qed

lemma getBlocksDescending_Returned:
  assumes "getBlocksDescending env refs = Returned (blocks, libnum)"
  shows "sorted_wrt (\<lambda>a b. Num a \<ge> Num b) blocks \<and> distinct (map ID blocks)
       \<and> ID ` set blocks \<subseteq> BlockID ` set refs"
proof -
  from assms obtain lowest highest where b: "boundaries refs = Some (lowest, highest)"
    by (auto simp: getBlocksDescending_def split: option.splits)
  obtain out complete err where
    h: "handle_blocks highest (file_source env lowest) (toMap refs) [] = (out, complete, err)"
    by (metis prod_cases3)
  with assms b have bl: "blocks = sortDescending out"
    by (auto simp: getBlocksDescending_def Let_def split: if_splits)
  from handle_blocks_out [OF h] have "distinct (map ID out)" "ID ` set out \<subseteq> toMap refs"
    by auto
  then show ?thesis
    by (simp add: bl sorted_sortDescending distinct_sortDescending set_sortDescending toMap_def)
qed

lemma send_matches_prefix:
  assumes "send_matches env blk libnum ms k = (r, sent)"
  shows "prefix sent (map (undo_match blk libnum) ms)
       \<and> (r = None \<longrightarrow> sent = map (undo_match blk libnum) ms)"
  using assms
  by (induction ms arbitrary: k r sent)
     (auto simp: Let_def split: option.splits if_splits prod.splits)

lemma process_blocks_prefix:
  assumes "process_blocks env bquery libnum blks k = (r, sent)"
  shows "prefix sent (concat (map (block_matches env bquery libnum) blks))"
  using assms
proof (induction blks arbitrary: k r sent)
  case Nil
  then show ?case by simp
next
  case (Cons blk blks)
  show ?case
  proof (cases "createSingleIndex env blk")
    case (Inl e)
    with Cons.prems show ?thesis by simp
  next
    case (Inr idx)
    show ?thesis
    proof (cases "RunSingleIndexQuery env bquery idx")
      case (Inl e)
      with Cons.prems Inr show ?thesis by (simp split: if_splits)
    next
      case ms: (Inr matches)
      obtain r1 sent1 where s: "send_matches env blk libnum (rev matches) k = (r1, sent1)"
        by (cases "send_matches env blk libnum (rev matches) k") auto
      have bm: "block_matches env bquery libnum blk = map (undo_match blk libnum) (rev matches)"
        by (simp add: block_matches_def Inr ms)
      note p = send_matches_prefix [OF s]
      show ?thesis
      proof (cases r1)
        case None
        obtain r2 sent2 where
          t: "process_blocks env bquery libnum blks (k + length sent1) = (r2, sent2)"
          by (cases "process_blocks env bquery libnum blks (k + length sent1)") auto
        from Cons.prems Inr ms s None t have "sent = sent1 @ sent2" by simp
        moreover from p None have "sent1 = block_matches env bquery libnum blk"
          by (simp add: bm)
        moreover note Cons.IH [OF t]
        ultimately show ?thesis by simp
      next
        case (Some r')
        with Cons.prems Inr ms s have "sent = sent1" by simp
        with p show ?thesis
          by (simp add: bm)
      qed
    qed
  qed
qed

lemma block_matches_fields:
  assumes "m \<in> set (block_matches env bquery libnum blk)"
  shows "MatchBlockNum m = Num blk \<and> cursor_block_id (Cursor m) = ID blk
       \<and> cursor_block_num (Cursor m) = Num blk \<and> Undo m"
  using assms
  by (auto simp: block_matches_def undo_match_def NewCursor_def split: sum.splits)

lemma block_matches_descending:
  assumes "\<forall>q idx ms. RunSingleIndexQuery env q idx = Inr ms
             \<longrightarrow> sorted_wrt (\<lambda>a b. GetIndex a \<le> GetIndex b) ms"
  shows "sorted_wrt (\<lambda>a b. MatchIndex a \<ge> MatchIndex b) (block_matches env bquery libnum blk)"
proof (cases "createSingleIndex env blk")
  case (Inl e)
  then show ?thesis by (simp add: block_matches_def)
next
  case (Inr idx)
  show ?thesis
  proof (cases "RunSingleIndexQuery env bquery idx")
    case (Inl e)
    with Inr show ?thesis by (simp add: block_matches_def)
  next
    case ms: (Inr matches)
    with assms have "sorted_wrt (\<lambda>a b. GetIndex a \<le> GetIndex b) matches" by blast
    then have "sorted_wrt (\<lambda>a b. GetIndex a \<ge> GetIndex b) (rev matches)"
      by (simp add: sorted_wrt_rev)
    then show ?thesis
      by (simp add: block_matches_def Inr ms sorted_wrt_map undo_match_def)
  qed
qed

lemma sorted_wrt_all_pairs:
  assumes "\<And>x y. x \<in> set xs \<Longrightarrow> y \<in> set xs \<Longrightarrow> P x y"
  shows "sorted_wrt P xs"
  using assms by (induction xs) auto

lemma concat_sorted_block_num:
  assumes "sorted_wrt (\<lambda>a b. Num a \<ge> Num b) blks"
  shows "sorted_wrt (\<lambda>a b. MatchBlockNum a \<ge> MatchBlockNum b)
           (concat (map (block_matches env bquery libnum) blks))"
  using assms
proof (induction blks)
  case Nil
  then show ?case by simp
next
  case (Cons blk blks)
  have same: "sorted_wrt (\<lambda>a b. MatchBlockNum a \<ge> MatchBlockNum b)
                (block_matches env bquery libnum blk)"
  proof (rule sorted_wrt_all_pairs)
    fix x y
    assume "x \<in> set (block_matches env bquery libnum blk)"
      and "y \<in> set (block_matches env bquery libnum blk)"
    then show "MatchBlockNum x \<ge> MatchBlockNum y"
      using block_matches_fields [of x env bquery libnum blk]
        block_matches_fields [of y env bquery libnum blk] by simp
  qed
  have cross: "MatchBlockNum x \<ge> MatchBlockNum y"
    if "x \<in> set (block_matches env bquery libnum blk)"
      and "y \<in> set (concat (map (block_matches env bquery libnum) blks))" for x y
  proof -
    from that(2) obtain b where b: "b \<in> set blks" "y \<in> set (block_matches env bquery libnum b)"
      by auto
    with Cons.prems have "Num blk \<ge> Num b" by auto
    with that(1) b(2) show ?thesis
      using block_matches_fields [of x env bquery libnum blk]
        block_matches_fields [of y env bquery libnum b] by simp
  qed
  from Cons have "sorted_wrt (\<lambda>a b. MatchBlockNum a \<ge> MatchBlockNum b)
           (concat (map (block_matches env bquery libnum) blks))" by simp
  with same cross show ?case
    by (simp add: sorted_wrt_append)
qed

lemma concat_sorted_index:
  assumes "distinct (map ID blks)"
    and "\<And>blk. sorted_wrt (\<lambda>a b. MatchIndex a \<ge> MatchIndex b) (block_matches env bquery libnum blk)"
  shows "sorted_wrt (\<lambda>a b. cursor_block_id (Cursor a) = cursor_block_id (Cursor b)
                        \<longrightarrow> MatchIndex a \<ge> MatchIndex b)
           (concat (map (block_matches env bquery libnum) blks))"
  using assms(1)
proof (induction blks)
  case Nil
  then show ?case by simp
next
  case (Cons blk blks)
  have inside: "sorted_wrt (\<lambda>a b. cursor_block_id (Cursor a) = cursor_block_id (Cursor b)
                        \<longrightarrow> MatchIndex a \<ge> MatchIndex b) (block_matches env bquery libnum blk)"
    by (rule sorted_wrt_mono_rel [OF _ assms(2)]) simp
  have cross: "cursor_block_id (Cursor x) \<noteq> cursor_block_id (Cursor y)"
    if "x \<in> set (block_matches env bquery libnum blk)"
      and "y \<in> set (concat (map (block_matches env bquery libnum) blks))" for x y
  proof -
    from that(2) obtain b where b: "b \<in> set blks" "y \<in> set (block_matches env bquery libnum b)"
      by auto
    with Cons.prems have "ID blk \<noteq> ID b" by auto
    with that(1) b(2) show ?thesis
      using block_matches_fields [of x env bquery libnum blk]
        block_matches_fields [of y env bquery libnum b] by simp
  qed
  from Cons have "sorted_wrt (\<lambda>a b. cursor_block_id (Cursor a) = cursor_block_id (Cursor b)
                        \<longrightarrow> MatchIndex a \<ge> MatchIndex b)
           (concat (map (block_matches env bquery libnum) blks))" by simp
  with inside cross show ?case
    by (simp add: sorted_wrt_append)
qed

lemma sorted_wrt_prefix:
  assumes "prefix xs ys" and "sorted_wrt P ys"
  shows "sorted_wrt P xs"
  using assms by (auto simp: prefix_def sorted_wrt_append)

lemma StreamUndoMatches_sent:
  "\<exists>blocks libnum bquery.
      prefix (sent_matches (snd (StreamUndoMatches env req)))
             (concat (map (block_matches env bquery libnum) blocks))
    \<and> sorted_wrt (\<lambda>a b. Num a \<ge> Num b) blocks
    \<and> distinct (map ID blocks)
    \<and> ID ` set blocks \<subseteq> BlockID ` set (ForkedBlockRefs req)"
proof -
  let ?goal = "\<lambda>sent. \<exists>blocks libnum bquery.
      prefix sent (concat (map (block_matches env bquery libnum) blocks))
    \<and> sorted_wrt (\<lambda>a b. Num a \<ge> Num b) blocks
    \<and> distinct (map ID blocks)
    \<and> ID ` set blocks \<subseteq> BlockID ` set (ForkedBlockRefs req)"
  have empty: "?goal []"
    by (intro exI [of _ "[]"]) simp
  show ?thesis
  proof (cases "ForkedBlockRefs req = []")
    case True
    with empty show ?thesis by (simp add: StreamUndoMatches_def)
  next
    case refs: False
    show ?thesis
    proof (cases "NewParsedQuery env (Query req)")
      case (Inl e)
      with refs empty show ?thesis by (simp add: StreamUndoMatches_def)
    next
      case (Inr bquery)
      show ?thesis
      proof (cases "getBlocksDescending env (ForkedBlockRefs req)")
        case Panicked
        with refs Inr empty show ?thesis by (simp add: StreamUndoMatches_def)
      next
        case (Failed e)
        obtain r sent where p: "process_blocks env bquery 0 [] 0 = (r, sent)"
          by (cases "process_blocks env bquery 0 [] 0") auto
        then have "sent = []" by simp
        with refs Inr Failed p empty show ?thesis
          by (simp add: StreamUndoMatches_def)
      next
        case (Returned bl)
        obtain blocks libnum where bl: "bl = (blocks, libnum)" by (cases bl) auto
        obtain r sent where p: "process_blocks env bquery libnum blocks 0 = (r, sent)"
          by (cases "process_blocks env bquery libnum blocks 0") auto
        have s: "sent_matches (snd (StreamUndoMatches env req)) = sent"
          using refs Inr Returned bl p
          by (simp add: StreamUndoMatches_def sent_matches_map_Sent)
        from process_blocks_prefix [OF p] getBlocksDescending_Returned [OF Returned [unfolded bl]]
        show ?thesis unfolding s by blast
      qed
    qed
  qed
qed

text \<open>
  Claim C8. Provided the query engine, asked for ascending order, returns the matches of
  a block in ascending transaction index: the matches sent by one run of
  \<open>StreamUndoMatches\<close> are in descending order of block number; two matches that carry
  the same block id in their cursors (matches of one block) are in descending order of
  transaction index; and every match sent has \<open>Undo\<close> set and a cursor that carries the
  id of one of the forked blocks of the request, with that block's number.
\<close>

theorem StreamUndoMatches_descending:
  assumes "\<forall>q idx ms. RunSingleIndexQuery env q idx = Inr ms
             \<longrightarrow> sorted_wrt (\<lambda>a b. GetIndex a \<le> GetIndex b) ms"
  shows "sorted_wrt (\<lambda>a b. MatchBlockNum a \<ge> MatchBlockNum b)
           (sent_matches (snd (StreamUndoMatches env req)))
       \<and> sorted_wrt (\<lambda>a b. cursor_block_id (Cursor a) = cursor_block_id (Cursor b)
                              \<longrightarrow> MatchIndex a \<ge> MatchIndex b)
           (sent_matches (snd (StreamUndoMatches env req)))
       \<and> (\<forall>m \<in> set (sent_matches (snd (StreamUndoMatches env req))).
             Undo m
           \<and> cursor_block_id (Cursor m) \<in> BlockID ` set (ForkedBlockRefs req)
           \<and> cursor_block_num (Cursor m) = MatchBlockNum m)"
proof -
  obtain blocks libnum bquery where
    pre: "prefix (sent_matches (snd (StreamUndoMatches env req)))
            (concat (map (block_matches env bquery libnum) blocks))"
    and srt: "sorted_wrt (\<lambda>a b. Num a \<ge> Num b) blocks"
    and dst: "distinct (map ID blocks)"
    and ids: "ID ` set blocks \<subseteq> BlockID ` set (ForkedBlockRefs req)"
    using StreamUndoMatches_sent [of env req] by blast
  have a: "sorted_wrt (\<lambda>a b. MatchBlockNum a \<ge> MatchBlockNum b)
             (sent_matches (snd (StreamUndoMatches env req)))"
    using pre concat_sorted_block_num [OF srt] by (rule sorted_wrt_prefix)
  have b: "sorted_wrt (\<lambda>a b. cursor_block_id (Cursor a) = cursor_block_id (Cursor b)
                              \<longrightarrow> MatchIndex a \<ge> MatchIndex b)
             (sent_matches (snd (StreamUndoMatches env req)))"
    using pre concat_sorted_index [OF dst block_matches_descending [OF assms]]
    by (rule sorted_wrt_prefix)
  have c: "Undo m \<and> cursor_block_id (Cursor m) \<in> BlockID ` set (ForkedBlockRefs req)
           \<and> cursor_block_num (Cursor m) = MatchBlockNum m"
    if "m \<in> set (sent_matches (snd (StreamUndoMatches env req)))" for m
  proof -
    from that pre have "m \<in> set (concat (map (block_matches env bquery libnum) blocks))"
      using set_mono_prefix by blast
    then obtain blk where "blk \<in> set blocks" and "m \<in> set (block_matches env bquery libnum blk)"
      by auto
    with block_matches_fields [of m env bquery libnum blk] ids show ?thesis by auto
  qed
  from a b c show ?thesis by blast
qed

lemma forked_fetch:
  "getBlocksDescending forked_env forked_refs
     = Returned ([\<lparr> ID = ''bb'', Num = 9 \<rparr>, \<lparr> ID = ''cc'', Num = 9 \<rparr>, \<lparr> ID = ''aa'', Num = 7 \<rparr>], 6)"
  by (simp add: getBlocksDescending_def forked_env_def forked_refs_def boundaries_def
      boundaries_step_def toMap_def MaxLookupBlocks_def sortDescending_def Let_def)

lemma forked_stream:
  "StreamUndoMatches forked_env forked_request =
     (Returned (),
      [ParsedQuery ''account:eosio.token'', FetchedBlocks forked_refs,
       Sent (undo_match \<lparr> ID = ''bb'', Num = 9 \<rparr> 6 \<lparr> TransactionIDPrefix = ''t1'', GetIndex = 1 \<rparr>),
       Sent (undo_match \<lparr> ID = ''bb'', Num = 9 \<rparr> 6 \<lparr> TransactionIDPrefix = ''t0'', GetIndex = 0 \<rparr>),
       Sent (undo_match \<lparr> ID = ''cc'', Num = 9 \<rparr> 6 \<lparr> TransactionIDPrefix = ''t1'', GetIndex = 1 \<rparr>),
       Sent (undo_match \<lparr> ID = ''cc'', Num = 9 \<rparr> 6 \<lparr> TransactionIDPrefix = ''t0'', GetIndex = 0 \<rparr>),
       Sent (undo_match \<lparr> ID = ''aa'', Num = 7 \<rparr> 6 \<lparr> TransactionIDPrefix = ''t1'', GetIndex = 1 \<rparr>),
       Sent (undo_match \<lparr> ID = ''aa'', Num = 7 \<rparr> 6 \<lparr> TransactionIDPrefix = ''t0'', GetIndex = 0 \<rparr>)])"
proof -
  have ne: "forked_refs \<noteq> []" "ForkedBlockRefs forked_request = forked_refs"
    "Query forked_request = ''account:eosio.token''"
    by (simp_all add: forked_request_def forked_refs_def)
  have env: "NewParsedQuery forked_env = Inr" "createSingleIndex forked_env = Inr"
    "RunSingleIndexQuery forked_env = (\<lambda>q idx.
          Inr [\<lparr> TransactionIDPrefix = ''t0'', GetIndex = 0 \<rparr>,
               \<lparr> TransactionIDPrefix = ''t1'', GetIndex = 1 \<rparr>])"
    "FillProtoSpecific forked_env = (\<lambda>_ _. None)" "ctx_err forked_env = (\<lambda>_. False)"
    "stream_send forked_env = (\<lambda>_. None)"
    by (simp_all add: forked_env_def)
  show ?thesis
    by (simp add: StreamUndoMatches_def ne env forked_fetch)
qed

theorem StreamUndoMatches_descending_witness:
  "RunSingleIndexQuery forked_env = (\<lambda>q idx.
          Inr [\<lparr> TransactionIDPrefix = ''t0'', GetIndex = 0 \<rparr>,
               \<lparr> TransactionIDPrefix = ''t1'', GetIndex = 1 \<rparr>])
   \<and> map (\<lambda>m. (MatchBlockNum m, cursor_block_id (Cursor m), MatchIndex m, Undo m))
         (sent_matches (snd (StreamUndoMatches forked_env forked_request)))
       = [(9, ''bb'', 1, True), (9, ''bb'', 0, True), (9, ''cc'', 1, True),
          (9, ''cc'', 0, True), (7, ''aa'', 1, True), (7, ''aa'', 0, True)]
   \<and> sorted_wrt (\<lambda>a b. MatchBlockNum a \<ge> MatchBlockNum b)
        (sent_matches (snd (StreamUndoMatches forked_env forked_request)))
   \<and> sorted_wrt (\<lambda>a b. cursor_block_id (Cursor a) = cursor_block_id (Cursor b)
                           \<longrightarrow> MatchIndex a \<ge> MatchIndex b)
        (sent_matches (snd (StreamUndoMatches forked_env forked_request)))"
proof -
  have run: "RunSingleIndexQuery forked_env = (\<lambda>q idx.
          Inr [\<lparr> TransactionIDPrefix = ''t0'', GetIndex = 0 \<rparr>,
               \<lparr> TransactionIDPrefix = ''t1'', GetIndex = 1 \<rparr>])"
    by (simp add: forked_env_def)
  have asc: "\<forall>q idx ms. RunSingleIndexQuery forked_env q idx = Inr ms
               \<longrightarrow> sorted_wrt (\<lambda>a b. GetIndex a \<le> GetIndex b) ms"
    by (auto simp: run)
  have ev: "map (\<lambda>m. (MatchBlockNum m, cursor_block_id (Cursor m), MatchIndex m, Undo m))
         (sent_matches (snd (StreamUndoMatches forked_env forked_request)))
       = [(9, ''bb'', 1, True), (9, ''bb'', 0, True), (9, ''cc'', 1, True),
          (9, ''cc'', 0, True), (7, ''aa'', 1, True), (7, ''aa'', 0, True)]"
    by (simp add: forked_stream undo_match_def NewCursor_def)
  from StreamUndoMatches_descending [OF asc, of forked_request] run ev
  show ?thesis by blast
qed

subsection \<open>Requests without references, and the reach of \<open>boundaries\<close>\<close>

text \<open>
  Claim C7. For every request whose list of forked block references is empty,
  \<open>StreamUndoMatches\<close> returns the status \<open>InvalidArgument\<close> and does nothing else: it
  does not parse the query, fetches no block and sends no match.
\<close>

theorem StreamUndoMatches_empty_refs:
  assumes "ForkedBlockRefs req = []"
  shows "StreamUndoMatches env req
           = (Failed (Status InvalidArgument ''invalid argument: no refs requested''), [])"
  using assms by (simp add: StreamUndoMatches_def)

theorem StreamUndoMatches_empty_refs_witness:
  "ForkedBlockRefs (forked_request \<lparr> ForkedBlockRefs := [] \<rparr>) = []
   \<and> fst (StreamUndoMatches forked_env (forked_request \<lparr> ForkedBlockRefs := [] \<rparr>))
       = Failed (Status InvalidArgument ''invalid argument: no refs requested'')
   \<and> sent_matches (snd (StreamUndoMatches forked_env (forked_request \<lparr> ForkedBlockRefs := [] \<rparr>))) = []"
proof -
  have h: "ForkedBlockRefs (forked_request \<lparr> ForkedBlockRefs := [] \<rparr>) = []" by simp
  from StreamUndoMatches_empty_refs [OF h, of forked_env] h show ?thesis by simp
qed

text \<open>
  Claim C10. \<open>boundaries\<close> reads \<open>refs[0]\<close> and panics on an empty list
  (\<open>boundaries [] = None\<close>). Whenever a run of \<open>StreamUndoMatches\<close> reaches
  \<open>getBlocksDescending\<close>, the references it passes are those of the request, they are
  not empty, \<open>boundaries\<close> returns the least and the greatest block number among them,
  and the run does not panic.
\<close>

theorem boundaries_total_when_reached:
  assumes "FetchedBlocks refs \<in> set (snd (StreamUndoMatches env req))"
  shows "refs = ForkedBlockRefs req \<and> refs \<noteq> []
       \<and> boundaries refs = Some (Min (BlockNum ` set refs), Max (BlockNum ` set refs))
       \<and> fst (StreamUndoMatches env req) \<noteq> Panicked"
proof -
  have ne: "ForkedBlockRefs req \<noteq> []"
    using assms by (auto simp: StreamUndoMatches_def)
  have r: "refs = ForkedBlockRefs req"
    using assms ne
    by (auto simp: StreamUndoMatches_def Let_def
        split: sum.splits outcome.splits prod.splits if_splits option.splits)
  have b: "boundaries (ForkedBlockRefs req)
      = Some (Min (BlockNum ` set (ForkedBlockRefs req)), Max (BlockNum ` set (ForkedBlockRefs req)))"
    using ne by (rule boundaries_nonempty)
  then have "getBlocksDescending env (ForkedBlockRefs req) \<noteq> Panicked"
    by (simp add: getBlocksDescending_def Let_def split: prod.splits)
  then have "fst (StreamUndoMatches env req) \<noteq> Panicked"
    using ne
    by (auto simp: StreamUndoMatches_def Let_def
        split: sum.splits outcome.splits prod.splits option.splits)
  with ne r b show ?thesis by simp
qed

theorem boundaries_total_when_reached_witness:
  "FetchedBlocks forked_refs \<in> set (snd (StreamUndoMatches forked_env forked_request))
   \<and> boundaries forked_refs = Some (7, 9)
   \<and> boundaries [] = None"
proof -
  have h: "FetchedBlocks forked_refs \<in> set (snd (StreamUndoMatches forked_env forked_request))"
    by (simp add: forked_stream)
  have m: "Min (BlockNum ` set forked_refs) = 7" "Max (BlockNum ` set forked_refs) = 9"
    by (simp_all add: forked_refs_def)
  from boundaries_total_when_reached [OF h] h m show ?thesis
    by (simp add: boundaries_def)
qed


section \<open>Properties of the archive backend\<close>

text \<open>
  Claim C5. For every request in which one of \<open>WithReversible\<close>,
  \<open>StopAtVirtualHead\<close>, \<open>LiveMarkerInterval\<close>, \<open>NavigateFromBlockID\<close>,
  \<open>NavigateFromBlockNum\<close> is not its zero value, \<open>StreamMatches\<close> returns an error
  and has done nothing before: the query is not parsed and no match is sent. When all
  five are zero the request is not rejected on these grounds: the handler goes on to
  parse the query.
\<close>

theorem StreamMatches_rejects_live_fields:
  "(WithReversible req \<or> StopAtVirtualHead req \<or> LiveMarkerInterval req \<noteq> 0
      \<or> NavigateFromBlockID req \<noteq> [] \<or> NavigateFromBlockNum req \<noteq> 0
    \<longrightarrow> (\<exists>msg. StreamMatches env req = (Some (Failed (Errorf msg)), [])))
   \<and> (\<not> WithReversible req \<and> \<not> StopAtVirtualHead req \<and> LiveMarkerInterval req = 0
      \<and> NavigateFromBlockID req = [] \<and> NavigateFromBlockNum req = 0
    \<longrightarrow> (\<exists>rest. snd (StreamMatches env req) = ArchiveParsedQuery (BackendQuery req) # rest))"
  by (auto simp: StreamMatches_def Let_def split: sum.splits option.splits prod.splits)

lemma archive_example_stream:
  "StreamMatches archive_example plain_request =
     (Some (Returned ()),
      [ArchiveParsedQuery ''account:eosio.token'', ArchiveSent 1, ArchiveSent 2,
       SetTrailer (md_set ''last-block-read'' ''42'' (md_set ''last-block-read'' ''-1'' Map.empty))])"
  by (simp add: StreamMatches_def archive_example_def plain_request_def Let_def
      show_nat.simps digit_char_def)

theorem StreamMatches_rejects_live_fields_witness:
  "WithReversible reversible_request
   \<and> StreamMatches archive_example reversible_request
       = (Some (Failed (Errorf ''archive backend does not support WithReversible == true'')), [])
   \<and> \<not> WithReversible plain_request \<and> \<not> StopAtVirtualHead plain_request
   \<and> LiveMarkerInterval plain_request = 0 \<and> NavigateFromBlockID plain_request = []
   \<and> NavigateFromBlockNum plain_request = 0
   \<and> hd (snd (StreamMatches archive_example plain_request))
       = ArchiveParsedQuery ''account:eosio.token''"
proof -
  have r: "WithReversible reversible_request"
    by (simp add: reversible_request_def)
  have p: "\<not> WithReversible plain_request \<and> \<not> StopAtVirtualHead plain_request
    \<and> LiveMarkerInterval plain_request = 0 \<and> NavigateFromBlockID plain_request = []
    \<and> NavigateFromBlockNum plain_request = 0" "BackendQuery plain_request = ''account:eosio.token''"
    by (simp_all add: plain_request_def)
  from StreamMatches_rejects_live_fields [of reversible_request archive_example] r
  obtain msg where "StreamMatches archive_example reversible_request = (Some (Failed (Errorf msg)), [])"
    by blast
  moreover have "fst (StreamMatches archive_example reversible_request)
      = Some (Failed (Errorf ''archive backend does not support WithReversible == true''))"
    by (simp add: StreamMatches_def r)
  ultimately have a: "StreamMatches archive_example reversible_request
       = (Some (Failed (Errorf ''archive backend does not support WithReversible == true'')), [])"
    by simp
  from StreamMatches_rejects_live_fields [of plain_request archive_example] p
  obtain rest where "snd (StreamMatches archive_example plain_request)
      = ArchiveParsedQuery ''account:eosio.token'' # rest"
    by auto
  then have b: "hd (snd (StreamMatches archive_example plain_request))
       = ArchiveParsedQuery ''account:eosio.token''" by simp
  from r a p(1) b show ?thesis by simp
qed

lemma select_loop_trailer:
  assumes "select_loop env evs k trailer = (r, sent, trailer')"
  shows "trailer' = trailer
       \<or> (r = Some None \<and> (\<exists>last. ResultsClosed last \<in> set evs
             \<and> trailer' = md_set ''last-block-read'' (show_nat (unat last)) trailer))"
  using assms
proof (induction env evs k trailer arbitrary: r sent trailer' rule: select_loop.induct)
  case (5 env match rest k trailer)
  show ?case
  proof (cases "archiveSearchMatchToProto env match")
    case (Inl e)
    with "5.prems" show ?thesis by simp
  next
    case (Inr response)
    show ?thesis
    proof (cases "archive_send env k")
      case (Some e)
      with "5.prems" Inr show ?thesis by simp
    next
      case None
      obtain r1 s1 t1 where l: "select_loop env rest (Suc k) trailer = (r1, s1, t1)"
        by (metis prod_cases3)
      with "5.prems" Inr None have "r = r1" "trailer' = t1" by simp_all
      with "5.IH" [OF Inr None l] show ?thesis by auto
    qed
  qed
qed (auto split: if_splits)

text \<open>
  Once the five fields have passed and the query has parsed, the deferred
  \<open>SetTrailer\<close> is in place: whenever the handler returns, the last thing it does is
  to set the trailer, and \<open>last-block-read\<close> is \<open>-1\<close> unless the result channel was
  closed, when it is the decimal value of \<open>LastBlockRead\<close>.
\<close>

lemma StreamMatches_trailer_once_deferred:
  assumes zero: "\<not> WithReversible req" "\<not> StopAtVirtualHead req" "LiveMarkerInterval req = 0"
      "NavigateFromBlockID req = []" "NavigateFromBlockNum req = 0"
    and parsed: "archive_NewParsedQuery env (BackendQuery req) = Inr bquery"
    and returns: "StreamMatches env req = (Some out, effects)"
  shows "\<exists>before trailer. effects = before @ [SetTrailer trailer]
           \<and> (trailer ''last-block-read'' = Some [''-1'']
              \<or> (out = Returned () \<and> (\<exists>last. ResultsClosed last \<in> set (select_receives env)
                    \<and> trailer ''last-block-read'' = Some [show_nat (unat last)])))"
proof (cases "checkBoundaries env req")
  case (Some e)
  with zero parsed returns show ?thesis
    by (auto simp: StreamMatches_def Let_def md_set_def)
next
  case None
  obtain r sent t where
    l: "select_loop env (select_receives env) 0 (md_set ''last-block-read'' ''-1'' Map.empty) = (r, sent, t)"
    by (metis prod_cases3)
  with zero parsed returns None obtain r' where r: "r = Some r'"
    and e: "effects = (ArchiveParsedQuery (BackendQuery req) # map ArchiveSent sent) @ [SetTrailer t]"
    and o: "out = (case r' of None \<Rightarrow> Returned () | Some err \<Rightarrow> Failed err)"
    by (cases r) (auto simp: StreamMatches_def Let_def)
  from select_loop_trailer [OF l] r o
  have "t ''last-block-read'' = Some [''-1'']
      \<or> (out = Returned () \<and> (\<exists>last. ResultsClosed last \<in> set (select_receives env)
            \<and> t ''last-block-read'' = Some [show_nat (unat last)]))"
    by (auto simp: md_set_def)
  with e show ?thesis by blast
qed

text \<open>A query that does not parse is returned before the trailer exists, too.\<close>

lemma StreamMatches_parse_error:
  assumes "\<not> WithReversible req" "\<not> StopAtVirtualHead req" "LiveMarkerInterval req = 0"
      "NavigateFromBlockID req = []" "NavigateFromBlockNum req = 0"
    and "archive_NewParsedQuery env (BackendQuery req) = Inl err"
  shows "StreamMatches env req = (Some (Failed err), [ArchiveParsedQuery (BackendQuery req)])"
  using assms by (simp add: StreamMatches_def)

text \<open>
  Claim C6, at a request with \<open>WithReversible = true\<close>, for any archive: the handler
  returns its error before the trailer is created and before
  \<open>stream.SetTrailer\<close> is deferred, so this error exit sets no trailer at all (the
  same holds of the four other field checks and of a query that does not parse).
\<close>

theorem StreamMatches_rejection_sets_no_trailer:
  "StreamMatches env reversible_request
     = (Some (Failed (Errorf ''archive backend does not support WithReversible == true'')), [])"
  by (simp add: StreamMatches_def reversible_request_def)

end
